theory Spec2Isabelle
  imports Main "HOL-Library.Sublist"
begin

section \<open>The service-request API of backend/main.go\<close>

text \<open>
  The program is one Go file: \<^verbatim>\<open>main\<close> opens a MySQL connection, creates the table
  \<^verbatim>\<open>solicitudes\<close> and registers one handler on the pattern \<^verbatim>\<open>/\<close>; that handler answers
  pre-flight requests, hands \<^verbatim>\<open>/submit-service\<close> to \<^verbatim>\<open>submitServiceHandler\<close> and
  answers every other path with a welcome text.

  The two handlers and the start-up sequence are embedded as state-passing functions.
  What they call in the Go standard library (\<^verbatim>\<open>net/http\<close>'s response writer and
  \<^verbatim>\<open>http.Error\<close>, \<^verbatim>\<open>encoding/json\<close>'s \<^verbatim>\<open>Decoder.Decode\<close>) is modelled beside them, as far as
  the handlers use it, and so is the way a parsed request takes through \<^verbatim>\<open>net/http\<close> to the
  registered function (\<^verbatim>\<open>http.DefaultServeMux\<close>). The database is the environment: a table of rows, and an answer
  (accept or an error text) to every insert.

  Strings are byte strings, as in Go; a byte outside ASCII is written \<open>CHR 0x..\<close>.
\<close>

subsection \<open>net/http: requests and the response writer\<close>

text \<open>
  The parts of a parsed \<^verbatim>\<open>*http.Request\<close> that are read: by the handlers \<^verbatim>\<open>r.Method\<close>,
  \<^verbatim>\<open>r.URL.Path\<close> (the path with its percent-escapes decoded) and \<^verbatim>\<open>r.Body\<close>; by \<^verbatim>\<open>net/http\<close>,
  before it calls a handler, also \<^verbatim>\<open>r.URL.EscapedPath()\<close> (the path as it is written in the
  request) and \<^verbatim>\<open>r.RequestURI\<close> (the whole request target, which is \<^verbatim>\<open>*\<close> for a request
  about the server itself). The query string, which nothing in the program reads, is left
  out; requests are HTTP/1.1.
\<close>

record Request =
  Method :: string
  Path :: string
  Body :: string
  EscapedPath :: string
  RequestURI :: string

text \<open>
  \<^verbatim>\<open>http.Header\<close> is a \<^verbatim>\<open>map[string][]string\<close>. The response writer keeps the header map
  the handler edits, and the copy of it that \<^verbatim>\<open>WriteHeader\<close> sends with the status line:
  an edit made after \<^verbatim>\<open>WriteHeader\<close> does not reach the client.
\<close>

type_synonym Header = "string \<rightharpoonup> string list"

record ResponseWriter =
  header :: Header
  wroteHeader :: bool
  status :: nat
  sentHeader :: Header
  body :: string

definition newResponseWriter :: ResponseWriter where
  "newResponseWriter =
     \<lparr>header = Map.empty, wroteHeader = False, status = 0, sentHeader = Map.empty, body = []\<rparr>"

definition StatusOK :: nat where "StatusOK = 200"
definition StatusBadRequest :: nat where "StatusBadRequest = 400"
definition StatusMethodNotAllowed :: nat where "StatusMethodNotAllowed = 405"
definition StatusInternalServerError :: nat where "StatusInternalServerError = 500"

text \<open>\<^verbatim>\<open>w.Header().Set(k, v)\<close> replaces the values of \<open>k\<close>; every key used here is in canonical form already.\<close>

definition Header_Set :: "string \<Rightarrow> string \<Rightarrow> ResponseWriter \<Rightarrow> ResponseWriter" where
  "Header_Set k v w = w\<lparr>header := (header w)(k \<mapsto> [v])\<rparr>"

definition Header_Del :: "string \<Rightarrow> ResponseWriter \<Rightarrow> ResponseWriter" where
  "Header_Del k w = w\<lparr>header := (header w)(k := None)\<rparr>"

text \<open>\<^verbatim>\<open>w.WriteHeader(code)\<close>: the first call fixes the status and the headers; a later one is ignored.\<close>

definition WriteHeader :: "nat \<Rightarrow> ResponseWriter \<Rightarrow> ResponseWriter" where
  "WriteHeader code w =
     (if wroteHeader w then w
      else w\<lparr>wroteHeader := True, status := code, sentHeader := header w\<rparr>)"

text \<open>\<^verbatim>\<open>w.Write(data)\<close>: writes the header with status 200 first when none was written.\<close>

definition Write :: "string \<Rightarrow> ResponseWriter \<Rightarrow> ResponseWriter" where
  "Write data w =
     (let w' = (if wroteHeader w then w else WriteHeader StatusOK w)
      in w'\<lparr>body := body w' @ data\<rparr>)"

text \<open>
  \<^verbatim>\<open>http.Error(w, error, code)\<close>: deletes \<^verbatim>\<open>Content-Length\<close>, sets the content type to plain
  text, writes the status and then the text followed by a newline (\<^verbatim>\<open>fmt.Fprintln\<close>).
\<close>

definition Error :: "ResponseWriter \<Rightarrow> string \<Rightarrow> nat \<Rightarrow> ResponseWriter" where
  "Error w err code =
     (let w1 = Header_Del ''Content-Length'' w;
          w2 = Header_Set ''Content-Type'' ''text/plain; charset=utf-8'' w1;
          w3 = Header_Set ''X-Content-Type-Options'' ''nosniff'' w2;
          w4 = WriteHeader code w3
      in Write (err @ [CHR 0x0A]) w4)"

subsection \<open>encoding/json: reading the first JSON value of the body\<close>

datatype json =
    JNull
  | JBool bool
  | JNumber string
  | JString string
  | JArray "json list"
  | JObject "(string \<times> json) list"

text \<open>
  The errors \<^verbatim>\<open>Decode\<close> returns: a syntax error of the scanner, \<^verbatim>\<open>io.EOF\<close> on a body with
  no value at all, \<^verbatim>\<open>io.ErrUnexpectedEOF\<close> on a value cut short, and an
  \<^verbatim>\<open>UnmarshalTypeError\<close> for a value that does not fit the Go type.
\<close>

datatype decode_error = SyntaxError | EOF | ErrUnexpectedEOF | UnmarshalTypeError

text \<open>
  The scanner is a pushdown automaton that reads one byte at a time. \<open>mode\<close> is its step
  function (\<^verbatim>\<open>stateBeginValue\<close>, \<^verbatim>\<open>stateInString\<close>, \<^verbatim>\<open>state1\<close>, ...), with the bytes of the
  token read so far; \<open>frame\<close> is an entry of its \<^verbatim>\<open>parseState\<close> stack, with the part of the
  array or object built so far.
\<close>

datatype mode =
    BeginValue
  | BeginValueOrEmpty
  | BeginStringOrEmpty
  | BeginString
  | EndValue
  | InString string
  | InStringEsc string
  | InStringEscU string nat
  | Neg string
  | Zero string
  | Digits string
  | Dot string
  | Dot0 string
  | Exp string
  | ESign string
  | E0 string
  | Literal string json

datatype frame =
    ArrayValue "json list"
  | ObjectKey "(string \<times> json) list"
  | ObjectColon "(string \<times> json) list" string
  | ObjectValue "(string \<times> json) list" string
  | ObjectComma "(string \<times> json) list"

datatype scan = Continue mode "frame list" | End json | ScanError

definition byte :: "char \<Rightarrow> nat" where
  "byte c = of_char c"

definition isSpace :: "char \<Rightarrow> bool" where
  "isSpace c = (c = CHR '' '' \<or> c = CHR 0x09 \<or> c = CHR 0x0D \<or> c = CHR 0x0A)"

definition isDigit :: "char \<Rightarrow> bool" where
  "isDigit c = (0x30 \<le> byte c \<and> byte c \<le> 0x39)"

definition isHex :: "char \<Rightarrow> bool" where
  "isHex c = (isDigit c \<or> (0x61 \<le> byte c \<and> byte c \<le> 0x66) \<or> (0x41 \<le> byte c \<and> byte c \<le> 0x46))"

subsubsection \<open>Strings: \<^verbatim>\<open>unquoteBytes\<close>\<close>

definition hexval :: "char \<Rightarrow> nat" where
  "hexval c =
     (if isDigit c then byte c - 0x30
      else if 0x61 \<le> byte c then byte c - 0x57
      else byte c - 0x37)"

text \<open>\<^verbatim>\<open>getu4\<close>: the code unit of a \<^verbatim>\<open>\uXXXX\<close> at the head of the bytes, if there is one.\<close>

definition getu4 :: "string \<Rightarrow> nat option" where
  "getu4 s =
     (case s of
        a # b # h1 # h2 # h3 # h4 # _ \<Rightarrow>
          if a = CHR 0x5C \<and> b = CHR ''u'' \<and> isHex h1 \<and> isHex h2 \<and> isHex h3 \<and> isHex h4
          then Some (((hexval h1 * 16 + hexval h2) * 16 + hexval h3) * 16 + hexval h4)
          else None
      | _ \<Rightarrow> None)"

definition isSurrogate :: "nat \<Rightarrow> bool" where
  "isSurrogate r = (0xD800 \<le> r \<and> r < 0xE000)"

definition RuneError :: string where
  "RuneError = [CHR 0xEF, CHR 0xBF, CHR 0xBD]"

text \<open>\<^verbatim>\<open>utf8.EncodeRune\<close>.\<close>

definition encodeRune :: "nat \<Rightarrow> string" where
  "encodeRune r =
     (if r < 0x80 then [char_of r]
      else if r < 0x800 then [char_of (0xC0 + r div 64), char_of (0x80 + r mod 64)]
      else if isSurrogate r \<or> 0x10FFFF < r then RuneError
      else if r < 0x10000 then
        [char_of (0xE0 + r div 4096), char_of (0x80 + r div 64 mod 64), char_of (0x80 + r mod 64)]
      else
        [char_of (0xF0 + r div 262144), char_of (0x80 + r div 4096 mod 64),
         char_of (0x80 + r div 64 mod 64), char_of (0x80 + r mod 64)])"

text \<open>
  \<^verbatim>\<open>utf8.DecodeRune\<close> at a byte outside ASCII: the number of bytes of the well-formed
  encoding that starts the string, or 1 when the bytes are ill-formed.
\<close>

definition isCont :: "char \<Rightarrow> bool" where
  "isCont c = (0x80 \<le> byte c \<and> byte c \<le> 0xBF)"

definition runeSize :: "string \<Rightarrow> nat" where
  "runeSize s =
     (case s of
        a # b # rest \<Rightarrow>
          (let x = byte a;
               lo = (if x = 0xE0 then 0xA0 else if x = 0xF0 then 0x90 else 0x80);
               hi = (if x = 0xED then 0x9F else if x = 0xF4 then 0x8F else 0xBF);
               n = (if 0xC2 \<le> x \<and> x \<le> 0xDF then 2
                    else if 0xE0 \<le> x \<and> x \<le> 0xEF then 3
                    else if 0xF0 \<le> x \<and> x \<le> 0xF4 then 4
                    else 0)
           in if n = 0 \<or> byte b < lo \<or> hi < byte b then 1
              else if n - 2 \<le> length rest \<and> list_all isCont (take (n - 2) rest) then n
              else 1)
      | _ \<Rightarrow> 1)"

definition unescape :: "char \<Rightarrow> char" where
  "unescape e =
     (if e = CHR ''b'' then CHR 0x08
      else if e = CHR ''f'' then CHR 0x0C
      else if e = CHR ''n'' then CHR 0x0A
      else if e = CHR ''r'' then CHR 0x0D
      else if e = CHR ''t'' then CHR 0x09
      else e)"

text \<open>
  \<^verbatim>\<open>unquoteBytes\<close> on the bytes between the quotes, which the scanner has accepted: escapes
  are replaced, a \<^verbatim>\<open>\uXXXX\<close> becomes UTF-8 (a surrogate pair one rune, a lone surrogate
  U+FFFD), and every ill-formed byte becomes U+FFFD.
\<close>

function unquote :: "string \<Rightarrow> string" where
  "unquote [] = []"
| "unquote (c # cs) =
     (if c = CHR 0x5C then
        (case cs of
           [] \<Rightarrow> []
         | e # cs' \<Rightarrow>
             if e = CHR ''u'' then
               (case getu4 (c # cs) of
                  None \<Rightarrow> []
                | Some rr \<Rightarrow>
                    (let rest = drop 4 cs' in
                     if isSurrogate rr then
                       (case getu4 rest of
                          None \<Rightarrow> RuneError @ unquote rest
                        | Some rr1 \<Rightarrow>
                            if rr < 0xDC00 \<and> 0xDC00 \<le> rr1 \<and> rr1 < 0xE000
                            then encodeRune ((rr - 0xD800) * 1024 + (rr1 - 0xDC00) + 0x10000)
                                   @ unquote (drop 6 rest)
                            else RuneError @ unquote rest)
                     else encodeRune rr @ unquote rest))
             else unescape e # unquote cs')
      else if byte c < 0x80 then c # unquote cs
      else
        (let n = runeSize (c # cs)
         in (if n = 1 then RuneError else take n (c # cs)) @ unquote (drop (n - 1) cs)))"
  by pat_completeness auto
termination
  by (relation "measure length") auto

subsubsection \<open>The scanner\<close>

definition maxNestingDepth :: nat where "maxNestingDepth = 10000"

text \<open>\<^verbatim>\<open>pushParseState\<close>: entering an array or object, up to the nesting limit.\<close>

definition pushParseState :: "frame \<Rightarrow> mode \<Rightarrow> frame list \<Rightarrow> scan" where
  "pushParseState f m st =
     (if length st + 1 \<le> maxNestingDepth then Continue m (f # st) else ScanError)"

text \<open>
  A value has been read: at top level the scan ends; inside an array or object the value is
  added to the innermost frame and the scanner goes on in \<^verbatim>\<open>stateEndValue\<close>.
\<close>

fun complete :: "json \<Rightarrow> frame list \<Rightarrow> scan" where
  "complete v [] = End v"
| "complete v (ArrayValue es # st) = Continue EndValue (ArrayValue (es @ [v]) # st)"
| "complete v (ObjectKey ms # st) =
     (case v of JString k \<Rightarrow> Continue EndValue (ObjectColon ms k # st) | _ \<Rightarrow> ScanError)"
| "complete v (ObjectValue ms k # st) = Continue EndValue (ObjectComma (ms @ [(k, v)]) # st)"
| "complete v (_ # st) = ScanError"

fun stateEndValue :: "frame list \<Rightarrow> char \<Rightarrow> scan" where
  "stateEndValue [] c = ScanError"
| "stateEndValue (f # st) c =
     (if isSpace c then Continue EndValue (f # st)
      else case f of
          ObjectColon ms k \<Rightarrow>
            if c = CHR '':'' then Continue BeginValue (ObjectValue ms k # st) else ScanError
        | ObjectComma ms \<Rightarrow>
            if c = CHR '','' then Continue BeginString (ObjectKey ms # st)
            else if c = CHR ''}'' then complete (JObject ms) st
            else ScanError
        | ArrayValue es \<Rightarrow>
            if c = CHR '','' then Continue BeginValue (ArrayValue es # st)
            else if c = CHR '']'' then complete (JArray es) st
            else ScanError
        | _ \<Rightarrow> ScanError)"

definition stateBeginValue :: "frame list \<Rightarrow> char \<Rightarrow> scan" where
  "stateBeginValue st c =
     (if c = CHR ''{'' then pushParseState (ObjectKey []) BeginStringOrEmpty st
      else if c = CHR ''['' then pushParseState (ArrayValue []) BeginValueOrEmpty st
      else if c = CHR 0x22 then Continue (InString []) st
      else if c = CHR ''-'' then Continue (Neg [c]) st
      else if c = CHR ''0'' then Continue (Zero [c]) st
      else if c = CHR ''t'' then Continue (Literal ''rue'' (JBool True)) st
      else if c = CHR ''f'' then Continue (Literal ''alse'' (JBool False)) st
      else if c = CHR ''n'' then Continue (Literal ''ull'' JNull) st
      else if 0x31 \<le> byte c \<and> byte c \<le> 0x39 then Continue (Digits [c]) st
      else ScanError)"

text \<open>The byte after a number ends it and is read again in \<^verbatim>\<open>stateEndValue\<close>.\<close>

definition endNumber :: "string \<Rightarrow> frame list \<Rightarrow> char \<Rightarrow> scan" where
  "endNumber s st c =
     (case complete (JNumber s) st of
        Continue m st' \<Rightarrow> stateEndValue st' c
      | r \<Rightarrow> r)"

definition state0 :: "string \<Rightarrow> frame list \<Rightarrow> char \<Rightarrow> scan" where
  "state0 s st c =
     (if c = CHR ''.'' then Continue (Dot (s @ [c])) st
      else if c = CHR ''e'' \<or> c = CHR ''E'' then Continue (Exp (s @ [c])) st
      else endNumber s st c)"

definition stateESign :: "string \<Rightarrow> frame list \<Rightarrow> char \<Rightarrow> scan" where
  "stateESign s st c = (if isDigit c then Continue (E0 (s @ [c])) st else ScanError)"

fun step :: "mode \<Rightarrow> frame list \<Rightarrow> char \<Rightarrow> scan" where
  "step BeginValue st c =
     (if isSpace c then Continue BeginValue st else stateBeginValue st c)"
| "step BeginValueOrEmpty st c =
     (if isSpace c then Continue BeginValueOrEmpty st
      else if c = CHR '']'' then stateEndValue st c
      else stateBeginValue st c)"
| "step BeginStringOrEmpty st c =
     (if isSpace c then Continue BeginStringOrEmpty st
      else if c = CHR ''}'' then
        (case st of ObjectKey ms # st' \<Rightarrow> stateEndValue (ObjectComma ms # st') c | _ \<Rightarrow> ScanError)
      else if c = CHR 0x22 then Continue (InString []) st
      else ScanError)"
| "step BeginString st c =
     (if isSpace c then Continue BeginString st
      else if c = CHR 0x22 then Continue (InString []) st
      else ScanError)"
| "step EndValue st c = stateEndValue st c"
| "step (InString s) st c =
     (if c = CHR 0x22 then complete (JString (unquote s)) st
      else if c = CHR 0x5C then Continue (InStringEsc (s @ [c])) st
      else if byte c < 0x20 then ScanError
      else Continue (InString (s @ [c])) st)"
| "step (InStringEsc s) st c =
     (if c \<in> set [CHR ''b'', CHR ''f'', CHR ''n'', CHR ''r'', CHR ''t'', CHR 0x5C, CHR ''/'', CHR 0x22]
      then Continue (InString (s @ [c])) st
      else if c = CHR ''u'' then Continue (InStringEscU (s @ [c]) 4) st
      else ScanError)"
| "step (InStringEscU s n) st c =
     (if isHex c then
        (if n \<le> 1 then Continue (InString (s @ [c])) st
         else Continue (InStringEscU (s @ [c]) (n - 1)) st)
      else ScanError)"
| "step (Neg s) st c =
     (if c = CHR ''0'' then Continue (Zero (s @ [c])) st
      else if 0x31 \<le> byte c \<and> byte c \<le> 0x39 then Continue (Digits (s @ [c])) st
      else ScanError)"
| "step (Digits s) st c =
     (if isDigit c then Continue (Digits (s @ [c])) st else state0 s st c)"
| "step (Zero s) st c = state0 s st c"
| "step (Dot s) st c = (if isDigit c then Continue (Dot0 (s @ [c])) st else ScanError)"
| "step (Dot0 s) st c =
     (if isDigit c then Continue (Dot0 (s @ [c])) st
      else if c = CHR ''e'' \<or> c = CHR ''E'' then Continue (Exp (s @ [c])) st
      else endNumber s st c)"
| "step (Exp s) st c =
     (if c = CHR ''+'' \<or> c = CHR ''-'' then Continue (ESign (s @ [c])) st
      else stateESign s st c)"
| "step (ESign s) st c = stateESign s st c"
| "step (E0 s) st c =
     (if isDigit c then Continue (E0 (s @ [c])) st else endNumber s st c)"
| "step (Literal rest v) st c =
     (case rest of
        [] \<Rightarrow> ScanError
      | x # xs \<Rightarrow>
          if c = x then (if xs = [] then complete v st else Continue (Literal xs v) st)
          else ScanError)"

text \<open>
  \<^verbatim>\<open>Decoder.readValue\<close>: feeds the body to the scanner until the first value ends; what
  follows that value is not read. At the end of the body a number that is complete ends
  there; anything else is \<^verbatim>\<open>io.EOF\<close> when only white space was read, and
  \<^verbatim>\<open>io.ErrUnexpectedEOF\<close> otherwise.
\<close>

fun readValue :: "mode \<Rightarrow> frame list \<Rightarrow> string \<Rightarrow> decode_error + json" where
  "readValue m st [] =
     (case step m st (CHR '' '') of
        End v \<Rightarrow> Inr v
      | _ \<Rightarrow> if m = BeginValue \<and> st = [] then Inl EOF else Inl ErrUnexpectedEOF)"
| "readValue m st (c # cs) =
     (case step m st c of
        Continue m' st' \<Rightarrow> readValue m' st' cs
      | End v \<Rightarrow> Inr v
      | ScanError \<Rightarrow> Inl SyntaxError)"

subsubsection \<open>Filling the struct\<close>

text \<open>The struct \<^verbatim>\<open>Solicitud\<close>, with the JSON names \<^verbatim>\<open>nombre\<close>, \<^verbatim>\<open>telefono\<close>, \<^verbatim>\<open>servicio\<close>.\<close>

record Solicitud =
  Nombre :: string
  Telefono :: string
  Servicio :: string

definition zeroSolicitud :: Solicitud where
  "zeroSolicitud = \<lparr>Nombre = [], Telefono = [], Servicio = []\<rparr>"

text \<open>
  A key names a field when the two are equal under \<^verbatim>\<open>foldName\<close>, which maps the letters
  a-z to A-Z and a rune to the least rune of its case-folding class. Outside ASCII only
  U+017F (to S) and U+212A (to K) fold to an ASCII letter; the other runes fold to runes
  outside ASCII, which no field name contains, and are left as they are here.
\<close>

definition foldByte :: "char \<Rightarrow> char" where
  "foldByte c = (if 0x61 \<le> byte c \<and> byte c \<le> 0x7A then char_of (byte c - 0x20) else c)"

fun foldName :: "string \<Rightarrow> string" where
  "foldName (a # b # c # cs) =
     (if a = CHR 0xE2 \<and> b = CHR 0x84 \<and> c = CHR 0xAA then CHR ''K'' # foldName cs
      else if a = CHR 0xC5 \<and> b = CHR 0xBF then CHR ''S'' # foldName (c # cs)
      else foldByte a # foldName (b # c # cs))"
| "foldName [a, b] =
     (if a = CHR 0xC5 \<and> b = CHR 0xBF then ''S'' else [foldByte a, foldByte b])"
| "foldName [a] = [foldByte a]"
| "foldName [] = []"

definition isField :: "string \<Rightarrow> string \<Rightarrow> bool" where
  "isField name key = (foldName key = foldName name)"

text \<open>\<^verbatim>\<open>saveError\<close>: the first type error is the one \<^verbatim>\<open>Decode\<close> returns; decoding goes on.\<close>

definition saveError :: "decode_error \<Rightarrow> decode_error option \<Rightarrow> decode_error option" where
  "saveError e saved = (case saved of None \<Rightarrow> Some e | Some e0 \<Rightarrow> Some e0)"

text \<open>
  One member of the object: a key that names no field is skipped with its value; for a
  field of type string, a JSON string is stored, \<^verbatim>\<open>null\<close> leaves the field as it is, and
  any other value is a type error.
\<close>

definition setField :: "decode_error option \<times> Solicitud \<Rightarrow> string \<times> json \<Rightarrow> decode_error option \<times> Solicitud" where
  "setField acc member =
     (let (saved, s) = acc; (key, v) = member
      in if \<not> (isField ''nombre'' key \<or> isField ''telefono'' key \<or> isField ''servicio'' key)
         then (saved, s)
         else case v of
             JNull \<Rightarrow> (saved, s)
           | JString x \<Rightarrow>
               (saved,
                if isField ''nombre'' key then s\<lparr>Nombre := x\<rparr>
                else if isField ''telefono'' key then s\<lparr>Telefono := x\<rparr>
                else s\<lparr>Servicio := x\<rparr>)
           | _ \<Rightarrow> (saveError UnmarshalTypeError saved, s))"

text \<open>
  The value against the struct: \<^verbatim>\<open>null\<close> changes nothing, an object is read member by
  member in the order of the text (a repeated key overwrites), any other value is a type
  error.
\<close>

definition unmarshal :: "json \<Rightarrow> Solicitud \<Rightarrow> decode_error option \<times> Solicitud" where
  "unmarshal v s =
     (case v of
        JNull \<Rightarrow> (None, s)
      | JObject ms \<Rightarrow> foldl setField (None, s) ms
      | _ \<Rightarrow> (Some UnmarshalTypeError, s))"

text \<open>\<^verbatim>\<open>json.NewDecoder(r.Body).Decode(&solicitud)\<close>: the error, and the struct as it is left.\<close>

definition Decode :: "string \<Rightarrow> Solicitud \<Rightarrow> decode_error option \<times> Solicitud" where
  "Decode data s =
     (case readValue BeginValue [] data of
        Inl e \<Rightarrow> (Some e, s)
      | Inr v \<Rightarrow> unmarshal v s)"

subsection \<open>The database\<close>

text \<open>
  The table \<^verbatim>\<open>solicitudes\<close> of the \<^verbatim>\<open>CREATE TABLE\<close> statement: five columns, \<^verbatim>\<open>id\<close> filled by
  \<^verbatim>\<open>AUTO_INCREMENT\<close> and \<^verbatim>\<open>fecha_creacion\<close> by \<^verbatim>\<open>CURRENT_TIMESTAMP\<close>.
\<close>

record row =
  id_col :: nat
  nombre :: string
  telefono :: string
  servicio :: string
  fecha_creacion :: nat

text \<open>
  The database is outside the program. Its state is the table, the next \<^verbatim>\<open>AUTO_INCREMENT\<close>
  value, its clock, and the number of statements it has been sent. \<open>insert_error\<close> is the
  environment's answer to an insert of three values: the error the driver returns (lost
  connection, violated constraint, ...) or none.
\<close>

record store =
  solicitudes :: "row list"
  auto_increment :: nat
  current_timestamp :: nat
  insert_error :: "string \<Rightarrow> string \<Rightarrow> string \<Rightarrow> string option"
  execs :: nat

text \<open>
  \<^verbatim>\<open>db.Exec(insertSQL, nombre, telefono, servicio)\<close> with
  \<^verbatim>\<open>INSERT INTO solicitudes (nombre, telefono, servicio) VALUES (?, ?, ?)\<close>: a refused
  insert writes nothing; an accepted one appends one row holding the three values.
\<close>

definition db_Exec_insert :: "string \<Rightarrow> string \<Rightarrow> string \<Rightarrow> store \<Rightarrow> string option \<times> store" where
  "db_Exec_insert n t s d =
     (case insert_error d n t s of
        Some err \<Rightarrow> (Some err, d\<lparr>execs := execs d + 1\<rparr>)
      | None \<Rightarrow>
          (None,
           d\<lparr>solicitudes := solicitudes d @
                [\<lparr>id_col = auto_increment d, nombre = n, telefono = t, servicio = s,
                  fecha_creacion = current_timestamp d\<rparr>],
             auto_increment := auto_increment d + 1,
             execs := execs d + 1\<rparr>))"

subsection \<open>The handlers\<close>

text \<open>What a request can change: the database behind the global \<^verbatim>\<open>db\<close>, and the server's log.\<close>

record server =
  db :: store
  logged :: "string list"

definition log_Printf :: "string \<Rightarrow> server \<Rightarrow> server" where
  "log_Printf line sv = sv\<lparr>logged := logged sv @ [line]\<rparr>"

definition msgMethodNotAllowed :: string where
  \<open>msgMethodNotAllowed = ''{"message": "M'' @ [CHR 0xC3, CHR 0xA9] @ ''todo no permitido"}''\<close>

definition msgBadRequest :: string where
  \<open>msgBadRequest = ''{"message": "Error al decodificar la solicitud JSON"}''\<close>

definition msgInternalError :: string where
  \<open>msgInternalError = ''{"message": "Error interno del servidor al guardar la solicitud"}''\<close>

definition msgWelcome :: string where
  "msgWelcome = ''Bienvenido a la API de servicios. Usa /submit-service para enviar datos.''"

text \<open>
  \<^verbatim>\<open>json.NewEncoder(w).Encode(...)\<close> of the map with the one key \<^verbatim>\<open>message\<close> writes the
  object in compact form and a newline.
\<close>

definition msgSuccess :: string where
  \<open>msgSuccess = ''{"message":"Solicitud recibida con '' @ [CHR 0xC3, CHR 0xA9] @ ''xito!"}'' @ [CHR 0x0A]\<close>

definition allowHeaders :: string where
  "allowHeaders = ''Content-Type, Access-Control-Allow-Headers, Authorization, X-Requested-With''"

text \<open>The line of \<^verbatim>\<open>log.Printf\<close> for a decoded submission (\<^verbatim>\<open>%s\<close> inserts the string as it is).\<close>

definition logReceived :: "Solicitud \<Rightarrow> string" where
  "logReceived s =
     ''Solicitud recibida para el servicio '' @ [CHR 0x27] @ Servicio s @ [CHR 0x27] @
     '': Nombre='' @ [CHR 0x27] @ Nombre s @ [CHR 0x27] @
     '', Tel'' @ [CHR 0xC3, CHR 0xA9] @ ''fono='' @ [CHR 0x27] @ Telefono s @ [CHR 0x27]"

definition logInsertError :: "string \<Rightarrow> string" where
  "logInsertError err = ''Error al insertar en la base de datos: '' @ err"

definition submitServiceHandler :: "ResponseWriter \<Rightarrow> Request \<Rightarrow> server \<Rightarrow> ResponseWriter \<times> server" where
  "submitServiceHandler w0 r sv =
     (let w1 = Header_Set ''Access-Control-Allow-Origin'' ''*'' w0;
          w2 = Header_Set ''Access-Control-Allow-Methods'' ''POST, OPTIONS'' w1;
          w3 = Header_Set ''Access-Control-Allow-Headers'' allowHeaders w2;
          w = Header_Set ''Content-Type'' ''application/json'' w3
      in if Method r = ''OPTIONS'' then (WriteHeader StatusOK w, sv)
         else if Method r \<noteq> ''POST'' then (Error w msgMethodNotAllowed StatusMethodNotAllowed, sv)
         else
           (case Decode (Body r) zeroSolicitud of
              (Some err, _) \<Rightarrow> (Error w msgBadRequest StatusBadRequest, sv)
            | (None, solicitud) \<Rightarrow>
                (let sv1 = log_Printf (logReceived solicitud) sv;
                     (err, d) = db_Exec_insert (Nombre solicitud) (Telefono solicitud)
                                  (Servicio solicitud) (db sv1);
                     sv2 = sv1\<lparr>db := d\<rparr>
                 in case err of
                      Some e \<Rightarrow>
                        (Error w msgInternalError StatusInternalServerError,
                         log_Printf (logInsertError e) sv2)
                    | None \<Rightarrow> (Write msgSuccess w, sv2))))"

text \<open>The function registered on the pattern \<^verbatim>\<open>/\<close>, the only handler of the program.\<close>

definition rootHandler :: "ResponseWriter \<Rightarrow> Request \<Rightarrow> server \<Rightarrow> ResponseWriter \<times> server" where
  "rootHandler w0 r sv =
     (let w1 = Header_Set ''Access-Control-Allow-Origin'' ''*'' w0;
          w2 = Header_Set ''Access-Control-Allow-Methods'' ''POST, GET, OPTIONS, PUT, DELETE'' w1;
          w = Header_Set ''Access-Control-Allow-Headers'' allowHeaders w2
      in if Method r = ''OPTIONS'' then (WriteHeader StatusOK w, sv)
         else if Path r = ''/submit-service'' then submitServiceHandler w r sv
         else (Error w msgWelcome StatusOK, sv))"

text \<open>
  The registered function as the multiplexer calls it for a request it hands over: a fresh
  response writer, the handler, and the status 200 the server writes itself when the
  handler has written nothing.
\<close>

definition serve :: "Request \<Rightarrow> server \<Rightarrow> ResponseWriter \<times> server" where
  "serve r sv =
     (let (w, sv') = rootHandler newResponseWriter r sv
      in (if wroteHeader w then w else WriteHeader StatusOK w, sv'))"

subsection \<open>net/http: from the request to the handler\<close>

text \<open>
  \<^verbatim>\<open>main\<close> registers its function on \<^verbatim>\<open>http.DefaultServeMux\<close> and serves with a nil handler
  (\<^verbatim>\<open>http.ListenAndServe(":"+port, nil)\<close>), so every parsed request goes through the server's
  own handler and the multiplexer before the registered function sees it.
\<close>

text \<open>\<^verbatim>\<open>strings.Split(p, "/")\<close>, the segment being read first.\<close>

fun splitSlash :: "string \<Rightarrow> string \<Rightarrow> string list" where
  "splitSlash seg [] = [seg]"
| "splitSlash seg (c # cs) =
     (if c = CHR ''/'' then seg # splitSlash [] cs else splitSlash (seg @ [c]) cs)"

text \<open>
  The segments that \<^verbatim>\<open>path.Clean\<close> keeps of a rooted path: empty segments and \<^verbatim>\<open>.\<close> are
  dropped, \<^verbatim>\<open>..\<close> removes the segment before it (and is dropped at the root).
\<close>

fun keptSegments :: "string list \<Rightarrow> string list \<Rightarrow> string list" where
  "keptSegments out [] = rev out"
| "keptSegments out (s # ss) =
     (if s = [] \<or> s = ''.'' then keptSegments out ss
      else if s = ''..'' then keptSegments (drop 1 out) ss
      else keptSegments (s # out) ss)"

fun joinSlash :: "string list \<Rightarrow> string" where
  "joinSlash [] = []"
| "joinSlash [s] = s"
| "joinSlash (s # t # ss) = s @ ''/'' @ joinSlash (t # ss)"

text \<open>\<^verbatim>\<open>path.Clean\<close> on a rooted path, the only kind it is given here.\<close>

definition Clean :: "string \<Rightarrow> string" where
  "Clean p = ''/'' @ joinSlash (keptSegments [] (splitSlash [] p))"

text \<open>
  \<^verbatim>\<open>cleanPath\<close> of the multiplexer: the canonical form of a path, rooted, without empty,
  \<^verbatim>\<open>.\<close> or \<^verbatim>\<open>..\<close> segments, keeping a trailing slash.
\<close>

definition cleanPath :: "string \<Rightarrow> string" where
  "cleanPath p =
     (if p = [] then ''/''
      else
        (let p' = (if hd p \<noteq> CHR ''/'' then CHR ''/'' # p else p);
             np = Clean p'
         in if last p' = CHR ''/'' \<and> np \<noteq> ''/'' then np @ ''/'' else np))"

text \<open>
  \<^verbatim>\<open>url.URL.String\<close> of a URL that has a path only: the path with every byte escaped that
  \<^verbatim>\<open>shouldEscape\<close> names for a path.
\<close>

definition shouldEscape :: "char \<Rightarrow> bool" where
  "shouldEscape c =
     (\<not> ((0x61 \<le> byte c \<and> byte c \<le> 0x7A) \<or> (0x41 \<le> byte c \<and> byte c \<le> 0x5A) \<or>
         (0x30 \<le> byte c \<and> byte c \<le> 0x39) \<or> c \<in> set ''-_.~$&+,/:;=@''))"

definition upperhex :: "nat \<Rightarrow> char" where
  "upperhex n = ''0123456789ABCDEF'' ! (n mod 16)"

definition escapePath :: "string \<Rightarrow> string" where
  "escapePath p =
     concat (map (\<lambda>c. if shouldEscape c
                         then [CHR ''%'', upperhex (byte c div 16), upperhex (byte c)]
                         else [c]) p)"

definition htmlEscape :: "string \<Rightarrow> string" where
  "htmlEscape u =
     concat (map (\<lambda>c. if c = CHR ''&'' then ''&amp;''
                         else if c = CHR ''<'' then ''&lt;''
                         else if c = CHR ''>'' then ''&gt;''
                         else if c = CHR 0x22 then ''&#34;''
                         else if c = CHR 0x27 then ''&#39;''
                         else [c]) u)"

definition StatusTemporaryRedirect :: nat where "StatusTemporaryRedirect = 307"

text \<open>
  \<^verbatim>\<open>http.Redirect(w, r, url, code)\<close> for a rooted \<open>url\<close>: the target is cleaned once more and
  becomes the \<^verbatim>\<open>Location\<close> header; a GET or HEAD gets the content type of a short HTML note,
  and a GET the note itself. No other header is set.
\<close>

definition Redirect :: "ResponseWriter \<Rightarrow> Request \<Rightarrow> string \<Rightarrow> nat \<Rightarrow> ResponseWriter" where
  "Redirect w r url code =
     (let target = cleanPath url;
          hadCT = (header w ''Content-Type'' \<noteq> None);
          w1 = Header_Set ''Location'' target w;
          w2 = (if \<not> hadCT \<and> (Method r = ''GET'' \<or> Method r = ''HEAD'')
                then Header_Set ''Content-Type'' ''text/html; charset=utf-8'' w1 else w1);
          w3 = WriteHeader code w2
      in if \<not> hadCT \<and> Method r = ''GET''
         then Write (''<a href='' @ [CHR 0x22] @ htmlEscape target @ [CHR 0x22] @
                     ''>Temporary Redirect</a>.'' @ [CHR 0x0A, CHR 0x0A]) w3
         else w3)"

text \<open>
  \<^verbatim>\<open>globalOptionsHandler\<close>, with which the server itself answers \<^verbatim>\<open>OPTIONS *\<close>: it sets
  \<^verbatim>\<open>Content-Length: 0\<close> and writes nothing.
\<close>

definition globalOptionsHandler :: "ResponseWriter \<Rightarrow> ResponseWriter" where
  "globalOptionsHandler w = Header_Set ''Content-Length'' ''0'' w"

text \<open>What the server does when a handler returns: the status 200 if none was written.\<close>

definition finishRequest :: "ResponseWriter \<Rightarrow> ResponseWriter" where
  "finishRequest w = (if wroteHeader w then w else WriteHeader StatusOK w)"

text \<open>
  One request through the server. \<^verbatim>\<open>OPTIONS *\<close> is answered by the server; any other request
  for \<^verbatim>\<open>*\<close> is refused by the multiplexer with status 400. The pattern \<^verbatim>\<open>/\<close> matches every
  rooted path, so the multiplexer finds the registered function for every other request,
  but first compares the escaped path with its clean form and, when they differ, answers
  with a redirect to the clean form instead of calling the function. A \<^verbatim>\<open>CONNECT\<close> request
  is not put into clean form; with an empty path it is redirected to the root. (The
  escaped path of a parsed request is \<^verbatim>\<open>*\<close>, empty or rooted.)
\<close>

definition ServeHTTP :: "Request \<Rightarrow> server \<Rightarrow> ResponseWriter \<times> server" where
  "ServeHTTP r sv =
     (if RequestURI r = ''*'' \<and> Method r = ''OPTIONS''
      then (finishRequest (globalOptionsHandler newResponseWriter), sv)
      else if RequestURI r = ''*''
      then (WriteHeader StatusBadRequest (Header_Set ''Connection'' ''close'' newResponseWriter), sv)
      else if Method r = ''CONNECT''
      then (if EscapedPath r = []
            then (Redirect newResponseWriter r (escapePath (cleanPath (Path r) @ ''/''))
                    StatusTemporaryRedirect, sv)
            else serve r sv)
      else if cleanPath (EscapedPath r) \<noteq> EscapedPath r
      then (Redirect newResponseWriter r (escapePath (cleanPath (EscapedPath r)))
              StatusTemporaryRedirect, sv)
      else serve r sv)"

subsection \<open>Start-up: \<^verbatim>\<open>main\<close>\<close>

text \<open>
  What \<^verbatim>\<open>main\<close> meets outside the program: the environment variables, and the error (or
  none) of \<^verbatim>\<open>sql.Open\<close>, of \<^verbatim>\<open>db.Ping\<close>, of the \<^verbatim>\<open>CREATE TABLE\<close> statement and of
  \<^verbatim>\<open>http.ListenAndServe\<close>.
\<close>

record environ =
  vars :: "string \<rightharpoonup> string"
  sql_Open :: "string \<Rightarrow> string option"
  db_Ping :: "string option"
  db_Exec_create :: "string option"
  ListenAndServe :: "string \<Rightarrow> string option"

text \<open>The calls \<^verbatim>\<open>main\<close> makes, in order.\<close>

datatype call =
    Getenv string
  | Open string string
  | Ping
  | ExecCreateTable
  | Print string
  | HandleFunc string
  | Listen string

text \<open>
  \<^verbatim>\<open>log.Fatal\<close> prints its message and ends the process with \<^verbatim>\<open>os.Exit(1)\<close>; otherwise
  \<^verbatim>\<open>main\<close> stays in \<^verbatim>\<open>ListenAndServe\<close>, serving requests on the address.
\<close>

datatype outcome = Fatal string | Serving string

text \<open>\<^verbatim>\<open>os.Getenv\<close>: the empty string for a variable that is not set.\<close>

definition os_Getenv :: "environ \<Rightarrow> string \<Rightarrow> string" where
  "os_Getenv e k = (case vars e k of None \<Rightarrow> [] | Some v \<Rightarrow> v)"

definition msgNoURL :: string where
  "msgNoURL =
     ''La variable de entorno MYSQL_URL no est'' @ [CHR 0xC3, CHR 0xA1] @
     '' configurada. Aseg'' @ [CHR 0xC3, CHR 0xBA] @
     ''rate de que Railway la est'' @ [CHR 0xC3, CHR 0xA9] @
     '' inyectando o config'' @ [CHR 0xC3, CHR 0xBA] @ ''rala localmente para pruebas.''"

definition msgConnected :: string where
  "msgConnected =
     ''Conexi'' @ [CHR 0xC3, CHR 0xB3] @ ''n a la base de datos MySQL establecida con '' @
     [CHR 0xC3, CHR 0xA9] @ ''xito.''"

definition msgTableReady :: string where
  "msgTableReady =
     ''Tabla '' @ [CHR 0x27] @ ''solicitudes'' @ [CHR 0x27] @ '' verificada/creada con '' @
     [CHR 0xC3, CHR 0xA9] @ ''xito.''"

definition main :: "environ \<Rightarrow> call list \<times> outcome" where
  "main e =
     (let dbURL = os_Getenv e ''MYSQL_URL'';
          t1 = [Getenv ''MYSQL_URL'']
      in if dbURL = [] then (t1, Fatal msgNoURL)
         else
           (let t2 = t1 @ [Open ''mysql'' dbURL]
            in case sql_Open e dbURL of
                 Some err \<Rightarrow> (t2, Fatal (''Error al conectar a la base de datos: '' @ err))
               | None \<Rightarrow>
                   (let t3 = t2 @ [Ping]
                    in case db_Ping e of
                         Some err \<Rightarrow>
                           (t3, Fatal (''Error al hacer ping a la base de datos: '' @ err))
                       | None \<Rightarrow>
                           (let t4 = t3 @ [Print msgConnected, ExecCreateTable]
                            in case db_Exec_create e of
                                 Some err \<Rightarrow>
                                   (t4, Fatal (''Error al crear la tabla '' @ [CHR 0x27] @
                                               ''solicitudes'' @ [CHR 0x27] @ '': '' @ err))
                               | None \<Rightarrow>
                                   (let p = os_Getenv e ''PORT'';
                                        port = (if p = [] then ''8080'' else p);
                                        t5 = t4 @ [Print msgTableReady, HandleFunc ''/'',
                                                   Getenv ''PORT'',
                                                   Print (''Servidor Go escuchando en el puerto :'' @ port),
                                                   Listen ('':'' @ port)]
                                    in case ListenAndServe e ('':'' @ port) of
                                         Some err \<Rightarrow> (t5, Fatal err)
                                       | None \<Rightarrow> (t5, Serving ('':'' @ port)))))))"

subsection \<open>Notions used to state the properties\<close>

text \<open>The response writer as each handler has it after its \<^verbatim>\<open>Header().Set\<close> lines.\<close>

definition rootWriter :: ResponseWriter where
  "rootWriter =
     Header_Set ''Access-Control-Allow-Headers'' allowHeaders
       (Header_Set ''Access-Control-Allow-Methods'' ''POST, GET, OPTIONS, PUT, DELETE''
         (Header_Set ''Access-Control-Allow-Origin'' ''*'' newResponseWriter))"

definition submitWriter :: ResponseWriter where
  "submitWriter =
     Header_Set ''Content-Type'' ''application/json''
       (Header_Set ''Access-Control-Allow-Headers'' allowHeaders
         (Header_Set ''Access-Control-Allow-Methods'' ''POST, OPTIONS''
           (Header_Set ''Access-Control-Allow-Origin'' ''*'' rootWriter)))"

text \<open>The row an accepted insert of a decoded submission adds to a database.\<close>

definition newRow :: "store \<Rightarrow> Solicitud \<Rightarrow> row" where
  "newRow d s =
     \<lparr>id_col = auto_increment d, nombre = Nombre s, telefono = Telefono s,
      servicio = Servicio s, fecha_creacion = current_timestamp d\<rparr>"

text \<open>
  A member of a JSON object fits the struct when its key names none of the three fields,
  or its value is a string or \<^verbatim>\<open>null\<close>. A field is missing from an object when no key
  names it.
\<close>

definition namesField :: "string \<Rightarrow> bool" where
  "namesField key = (isField ''nombre'' key \<or> isField ''telefono'' key \<or> isField ''servicio'' key)"

definition isStringOrNull :: "json \<Rightarrow> bool" where
  "isStringOrNull v = (case v of JNull \<Rightarrow> True | JString x \<Rightarrow> True | _ \<Rightarrow> False)"

definition fits :: "string \<times> json \<Rightarrow> bool" where
  "fits member = (if namesField (fst member) then isStringOrNull (snd member) else True)"

definition missing :: "string \<Rightarrow> (string \<times> json) list \<Rightarrow> bool" where
  "missing name ms = (\<not> list_ex (\<lambda>member. isField name (fst member)) ms)"

text \<open>The ids of the table are pairwise different and below the next \<^verbatim>\<open>AUTO_INCREMENT\<close> value.\<close>

definition ids_unique :: "store \<Rightarrow> bool" where
  "ids_unique d =
     (distinct (map id_col (solicitudes d)) \<and>
      list_all (\<lambda>x. id_col x < auto_increment d) (solicitudes d))"

definition isListen :: "call \<Rightarrow> bool" where
  "isListen c = (case c of Listen a \<Rightarrow> True | _ \<Rightarrow> False)"

subsection \<open>Concrete requests, databases and environments\<close>

definition postRequest :: "string \<Rightarrow> Request" where
  "postRequest b =
     \<lparr>Method = ''POST'', Path = ''/submit-service'', Body = b,
      EscapedPath = ''/submit-service'', RequestURI = ''/submit-service''\<rparr>"

text \<open>A request whose target is a path that has no escapes and no query.\<close>

definition request :: "string \<Rightarrow> string \<Rightarrow> string \<Rightarrow> Request" where
  "request m p b = \<lparr>Method = m, Path = p, Body = b, EscapedPath = p, RequestURI = p\<rparr>"

definition anaBody :: string where
  \<open>anaBody = ''{"nombre":"Ana","telefono":"555-1234","servicio":"limpieza"}''\<close>

definition ana :: Solicitud where
  "ana = \<lparr>Nombre = ''Ana'', Telefono = ''555-1234'', Servicio = ''limpieza''\<rparr>"

definition wrongTypeBody :: string where
  \<open>wrongTypeBody = ''{"nombre":123}''\<close>

definition truncatedBody :: string where
  \<open>truncatedBody = ''{"nombre":"Ana"''\<close>

text \<open>A database that accepts every insert, and one whose connection is lost.\<close>

definition accepting :: "string \<Rightarrow> string \<Rightarrow> string \<Rightarrow> string option" where
  "accepting n t s = None"

definition disconnected :: "string \<Rightarrow> string \<Rightarrow> string \<Rightarrow> string option" where
  "disconnected n t s = Some ''invalid connection''"

definition oneRow :: row where
  "oneRow = \<lparr>id_col = 1, nombre = ''Luis'', telefono = ''555-0000'', servicio = ''pintura'',
             fecha_creacion = 1700000000\<rparr>"

definition server1 :: "(string \<Rightarrow> string \<Rightarrow> string \<Rightarrow> string option) \<Rightarrow> server" where
  "server1 f =
     \<lparr>db = \<lparr>solicitudes = [oneRow], auto_increment = 2, current_timestamp = 1700000100,
             insert_error = f, execs = 1\<rparr>,
      logged = []\<rparr>"

definition env0 :: environ where
  "env0 =
     \<lparr>vars = Map.empty, sql_Open = (\<lambda>dsn. None), db_Ping = None, db_Exec_create = None,
      ListenAndServe = (\<lambda>addr. None)\<rparr>"

definition envURL :: environ where
  "envURL = env0\<lparr>vars := [''MYSQL_URL'' \<mapsto> ''user:pw@tcp(db:3306)/railway'']\<rparr>"

section \<open>Properties\<close>

subsection \<open>The response writer\<close>

lemmas http_defs = Header_Set_def Header_Del_def WriteHeader_def Write_def Error_def
  newResponseWriter_def StatusOK_def StatusBadRequest_def StatusMethodNotAllowed_def
  StatusInternalServerError_def

lemma rootWriter_fresh: "\<not> wroteHeader rootWriter" "body rootWriter = []"
  by (simp_all add: rootWriter_def http_defs)

lemma submitWriter_fresh: "\<not> wroteHeader submitWriter" "body submitWriter = []"
  by (simp_all add: submitWriter_def rootWriter_def http_defs)

lemma Error_fresh:
  assumes "\<not> wroteHeader w" and "body w = []"
  shows "wroteHeader (Error w m c)" and "status (Error w m c) = c"
    and "body (Error w m c) = m @ [CHR 0x0A]"
    and "sentHeader (Error w m c) =
           (header w)(''Content-Length'' := None,
                      ''Content-Type'' \<mapsto> [''text/plain; charset=utf-8''],
                      ''X-Content-Type-Options'' \<mapsto> [''nosniff''])"
  using assms by (simp_all add: http_defs)

lemma Write_fresh:
  assumes "\<not> wroteHeader w" and "body w = []"
  shows "wroteHeader (Write m w)" and "status (Write m w) = 200" and "body (Write m w) = m"
    and "sentHeader (Write m w) = header w"
  using assms by (simp_all add: http_defs)

lemma WriteHeader_fresh:
  assumes "\<not> wroteHeader w"
  shows "wroteHeader (WriteHeader c w)" and "status (WriteHeader c w) = c"
    and "body (WriteHeader c w) = body w" and "sentHeader (WriteHeader c w) = header w"
  using assms by (simp_all add: http_defs)

lemma rootWriter_cors:
  "header rootWriter ''Access-Control-Allow-Origin'' = Some [''*'']"
  "header rootWriter ''Access-Control-Allow-Methods'' = Some [''POST, GET, OPTIONS, PUT, DELETE'']"
  "header rootWriter ''Access-Control-Allow-Headers'' = Some [allowHeaders]"
  "header rootWriter ''Content-Type'' = None"
  by (simp_all add: rootWriter_def http_defs)

lemma submitWriter_cors:
  "header submitWriter ''Access-Control-Allow-Origin'' = Some [''*'']"
  "header submitWriter ''Access-Control-Allow-Methods'' = Some [''POST, OPTIONS'']"
  "header submitWriter ''Access-Control-Allow-Headers'' = Some [allowHeaders]"
  "header submitWriter ''Content-Type'' = Some [''application/json'']"
  by (simp_all add: submitWriter_def rootWriter_def http_defs)

subsection \<open>The paths through the handlers\<close>

lemma serve_options:
  "Method r = ''OPTIONS'' \<Longrightarrow> serve r sv = (WriteHeader StatusOK rootWriter, sv)"
  by (simp add: serve_def rootHandler_def rootWriter_def http_defs)

lemma serve_default:
  "Method r \<noteq> ''OPTIONS'' \<Longrightarrow> Path r \<noteq> ''/submit-service'' \<Longrightarrow>
   serve r sv = (Error rootWriter msgWelcome StatusOK, sv)"
  by (simp add: serve_def rootHandler_def rootWriter_def http_defs)

lemma serve_method:
  "Path r = ''/submit-service'' \<Longrightarrow> Method r \<noteq> ''OPTIONS'' \<Longrightarrow> Method r \<noteq> ''POST'' \<Longrightarrow>
   serve r sv = (Error submitWriter msgMethodNotAllowed StatusMethodNotAllowed, sv)"
  by (simp add: serve_def rootHandler_def submitServiceHandler_def submitWriter_def
      rootWriter_def http_defs)

lemma serve_undecodable:
  "Path r = ''/submit-service'' \<Longrightarrow> Method r = ''POST'' \<Longrightarrow>
   fst (Decode (Body r) zeroSolicitud) = Some e \<Longrightarrow>
   serve r sv = (Error submitWriter msgBadRequest StatusBadRequest, sv)"
  by (cases "Decode (Body r) zeroSolicitud")
    (simp add: serve_def rootHandler_def submitServiceHandler_def submitWriter_def
      rootWriter_def http_defs)

lemma serve_refused:
  "Path r = ''/submit-service'' \<Longrightarrow> Method r = ''POST'' \<Longrightarrow>
   Decode (Body r) zeroSolicitud = (None, s) \<Longrightarrow>
   insert_error (db sv) (Nombre s) (Telefono s) (Servicio s) = Some e \<Longrightarrow>
   serve r sv =
     (Error submitWriter msgInternalError StatusInternalServerError,
      \<lparr>db = (db sv)\<lparr>execs := execs (db sv) + 1\<rparr>,
       logged = logged sv @ [logReceived s, logInsertError e]\<rparr>)"
  by (simp add: serve_def rootHandler_def submitServiceHandler_def submitWriter_def
      rootWriter_def http_defs db_Exec_insert_def log_Printf_def)

lemma serve_accepted:
  "Path r = ''/submit-service'' \<Longrightarrow> Method r = ''POST'' \<Longrightarrow>
   Decode (Body r) zeroSolicitud = (None, s) \<Longrightarrow>
   insert_error (db sv) (Nombre s) (Telefono s) (Servicio s) = None \<Longrightarrow>
   serve r sv =
     (Write msgSuccess submitWriter,
      \<lparr>db = (db sv)\<lparr>solicitudes := solicitudes (db sv) @ [newRow (db sv) s],
                     auto_increment := auto_increment (db sv) + 1,
                     execs := execs (db sv) + 1\<rparr>,
       logged = logged sv @ [logReceived s]\<rparr>)"
  by (simp add: serve_def rootHandler_def submitServiceHandler_def submitWriter_def
      rootWriter_def http_defs db_Exec_insert_def log_Printf_def newRow_def)

text \<open>The status of a POST to the submission path tells which path was taken.\<close>

lemma post_status_cases:
  assumes "Path r = ''/submit-service''" and "Method r = ''POST''"
    and "status (fst (serve r sv)) = 200"
  shows "fst (Decode (Body r) zeroSolicitud) = None \<and>
         insert_error (db sv) (Nombre (snd (Decode (Body r) zeroSolicitud)))
           (Telefono (snd (Decode (Body r) zeroSolicitud)))
           (Servicio (snd (Decode (Body r) zeroSolicitud))) = None"
proof -
  obtain err s where d: "Decode (Body r) zeroSolicitud = (err, s)"
    by (cases "Decode (Body r) zeroSolicitud")
  have e: "err = None"
  proof (cases err)
    case None
    then show ?thesis .
  next
    case (Some e)
    then have "serve r sv = (Error submitWriter msgBadRequest StatusBadRequest, sv)"
      using serve_undecodable[of r e sv] assms d by simp
    then have "status (fst (serve r sv)) = 400"
      by (simp add: Error_fresh submitWriter_fresh StatusBadRequest_def)
    then show ?thesis using assms by simp
  qed
  have "insert_error (db sv) (Nombre s) (Telefono s) (Servicio s) = None"
  proof (cases "insert_error (db sv) (Nombre s) (Telefono s) (Servicio s)")
    case None
    then show ?thesis .
  next
    case (Some x)
    then have "status (fst (serve r sv)) = 500"
      using serve_refused[of r s sv x] assms d e
      by (simp add: Error_fresh submitWriter_fresh StatusInternalServerError_def)
    then show ?thesis using assms by simp
  qed
  then show ?thesis using d e by simp
qed

subsection \<open>Filling the struct from an object\<close>

lemma setField_saved:
  "fst (setField (saved, s) (k, v)) =
     (if fits (k, v) then saved else saveError UnmarshalTypeError saved)"
  by (cases v) (auto simp: setField_def fits_def namesField_def isStringOrNull_def)

lemma foldl_setField_Some: "fst (foldl setField (Some e, s) ms) = Some e"
proof (induction ms arbitrary: s)
  case Nil
  then show ?case by simp
next
  case (Cons m ms)
  obtain k v where m: "m = (k, v)" by (cases m)
  obtain saved' s' where st: "setField (Some e, s) (k, v) = (saved', s')"
    by (cases "setField (Some e, s) (k, v)")
  have "saved' = Some e"
    using setField_saved[of "Some e" s k v] st by (simp add: saveError_def)
  then show ?case using Cons.IH[of s'] m st by simp
qed

lemma foldl_setField_None:
  "fst (foldl setField (None, s) ms) = None \<longleftrightarrow> list_all fits ms"
proof (induction ms arbitrary: s)
  case Nil
  then show ?case by simp
next
  case (Cons m ms)
  obtain k v where m: "m = (k, v)" by (cases m)
  obtain saved' s' where st: "setField (None, s) (k, v) = (saved', s')"
    by (cases "setField (None, s) (k, v)")
  show ?case
  proof (cases "fits (k, v)")
    case True
    then have "saved' = None" using setField_saved[of None s k v] st by simp
    then show ?thesis using Cons.IH[of s'] m st True by simp
  next
    case False
    then have "saved' = Some UnmarshalTypeError"
      using setField_saved[of None s k v] st by (simp add: saveError_def)
    then show ?thesis
      using foldl_setField_Some[of UnmarshalTypeError s' ms] m st False by simp
  qed
qed

lemma setField_other:
  "\<not> isField ''nombre'' k \<Longrightarrow> Nombre (snd (setField (saved, s) (k, v))) = Nombre s"
  "\<not> isField ''telefono'' k \<Longrightarrow> Telefono (snd (setField (saved, s) (k, v))) = Telefono s"
  "\<not> isField ''servicio'' k \<Longrightarrow> Servicio (snd (setField (saved, s) (k, v))) = Servicio s"
  by (cases v; auto simp: setField_def)+

lemma foldl_setField_Nombre:
  "missing ''nombre'' ms \<Longrightarrow> Nombre (snd (foldl setField (saved, s) ms)) = Nombre s"
proof (induction ms arbitrary: saved s)
  case Nil
  then show ?case by simp
next
  case (Cons m ms)
  obtain k v where m: "m = (k, v)" by (cases m)
  obtain saved' s' where st: "setField (saved, s) (k, v) = (saved', s')"
    by (cases "setField (saved, s) (k, v)")
  from Cons.prems m have nk: "\<not> isField ''nombre'' k" and rest: "missing ''nombre'' ms"
    by (simp_all add: missing_def)
  have "Nombre s' = Nombre s" using setField_other(1)[OF nk, of saved s v] st by simp
  then show ?case using Cons.IH[OF rest, of saved' s'] m st by simp
qed

lemma foldl_setField_Telefono:
  "missing ''telefono'' ms \<Longrightarrow> Telefono (snd (foldl setField (saved, s) ms)) = Telefono s"
proof (induction ms arbitrary: saved s)
  case Nil
  then show ?case by simp
next
  case (Cons m ms)
  obtain k v where m: "m = (k, v)" by (cases m)
  obtain saved' s' where st: "setField (saved, s) (k, v) = (saved', s')"
    by (cases "setField (saved, s) (k, v)")
  from Cons.prems m have nk: "\<not> isField ''telefono'' k" and rest: "missing ''telefono'' ms"
    by (simp_all add: missing_def)
  have "Telefono s' = Telefono s" using setField_other(2)[OF nk, of saved s v] st by simp
  then show ?case using Cons.IH[OF rest, of saved' s'] m st by simp
qed

lemma foldl_setField_Servicio:
  "missing ''servicio'' ms \<Longrightarrow> Servicio (snd (foldl setField (saved, s) ms)) = Servicio s"
proof (induction ms arbitrary: saved s)
  case Nil
  then show ?case by simp
next
  case (Cons m ms)
  obtain k v where m: "m = (k, v)" by (cases m)
  obtain saved' s' where st: "setField (saved, s) (k, v) = (saved', s')"
    by (cases "setField (saved, s) (k, v)")
  from Cons.prems m have nk: "\<not> isField ''servicio'' k" and rest: "missing ''servicio'' ms"
    by (simp_all add: missing_def)
  have "Servicio s' = Servicio s" using setField_other(3)[OF nk, of saved s v] st by simp
  then show ?case using Cons.IH[OF rest, of saved' s'] m st by simp
qed

text \<open>Decoding an object succeeds exactly when every member fits the struct.\<close>

lemma Decode_object:
  assumes "readValue BeginValue [] data = Inr (JObject ms)"
  shows "Decode data s = foldl setField (None, s) ms"
    and "fst (Decode data s) = None \<longleftrightarrow> list_all fits ms"
  using assms by (simp_all add: Decode_def unmarshal_def foldl_setField_None)

text \<open>A body from which no value can be read is refused, whatever the error.\<close>

lemma Decode_unreadable:
  "readValue BeginValue [] data = Inl e \<Longrightarrow> Decode data s = (Some e, s)"
  by (simp add: Decode_def)

subsection \<open>The texts the handler sends are JSON objects\<close>

lemma msgMethodNotAllowed_json:
  "readValue BeginValue [] (msgMethodNotAllowed @ [CHR 0x0A]) =
     Inr (JObject [(''message'', JString (''M'' @ [CHR 0xC3, CHR 0xA9] @ ''todo no permitido''))])"
  by code_simp

lemma msgBadRequest_json:
  "readValue BeginValue [] (msgBadRequest @ [CHR 0x0A]) =
     Inr (JObject [(''message'', JString ''Error al decodificar la solicitud JSON'')])"
  by code_simp


lemma msgSuccess_json:
  "readValue BeginValue [] msgSuccess =
     Inr (JObject [(''message'',
            JString (''Solicitud recibida con '' @ [CHR 0xC3, CHR 0xA9] @ ''xito!''))])"
  by code_simp

subsection \<open>Decoding the concrete bodies\<close>

lemma Decode_anaBody: "Decode anaBody zeroSolicitud = (None, ana)"
  by code_simp

lemma readValue_wrongTypeBody:
  "readValue BeginValue [] wrongTypeBody = Inr (JObject [(''nombre'', JNumber ''123'')])"
  by code_simp

lemma Decode_wrongTypeBody:
  "Decode wrongTypeBody zeroSolicitud = (Some UnmarshalTypeError, zeroSolicitud)"
  by code_simp

lemma Decode_truncatedBody:
  "Decode truncatedBody zeroSolicitud = (Some ErrUnexpectedEOF, zeroSolicitud)"
  by code_simp

lemma readValue_emptyObject: "readValue BeginValue [] ''{}'' = Inr (JObject [])"
  by code_simp

subsection \<open>The ids of the table\<close>

lemma ids_unique_insert:
  "ids_unique d \<Longrightarrow> ids_unique (snd (db_Exec_insert n t s d))"
  by (cases "insert_error d n t s")
    (auto simp: ids_unique_def db_Exec_insert_def list_all_iff)

lemma ids_unique_serve: "ids_unique (db sv) \<Longrightarrow> ids_unique (db (snd (serve r sv)))"
proof -
  assume u: "ids_unique (db sv)"
  show ?thesis
  proof (cases "Method r \<noteq> ''OPTIONS'' \<and> Path r = ''/submit-service'' \<and> Method r = ''POST''")
    case False
    then have "snd (serve r sv) = sv"
      by (cases "Method r = ''OPTIONS''"; cases "Path r = ''/submit-service''")
        (simp_all add: serve_options serve_default serve_method)
    then show ?thesis using u by simp
  next
    case True
    obtain err s where d: "Decode (Body r) zeroSolicitud = (err, s)"
      by (cases "Decode (Body r) zeroSolicitud")
    show ?thesis
    proof (cases err)
      case (Some e)
      then show ?thesis using True d u serve_undecodable[of r e sv] by simp
    next
      case None
      show ?thesis
      proof (cases "insert_error (db sv) (Nombre s) (Telefono s) (Servicio s)")
        case (Some e)
        then show ?thesis using True d None u
          by (simp add: serve_refused ids_unique_def)
      next
        case accepted: None
        then show ?thesis using True d None u
          by (auto simp: serve_accepted ids_unique_def newRow_def list_all_iff)
      qed
    qed
  qed
qed

subsection \<open>The start-up sequence, case by case\<close>

lemma main_no_url:
  "os_Getenv e ''MYSQL_URL'' = [] \<Longrightarrow> main e = ([Getenv ''MYSQL_URL''], Fatal msgNoURL)"
  by (simp add: main_def)

lemma main_open_fails:
  "os_Getenv e ''MYSQL_URL'' \<noteq> [] \<Longrightarrow> sql_Open e (os_Getenv e ''MYSQL_URL'') = Some err \<Longrightarrow>
   main e = ([Getenv ''MYSQL_URL'', Open ''mysql'' (os_Getenv e ''MYSQL_URL'')],
             Fatal (''Error al conectar a la base de datos: '' @ err))"
  by (simp add: main_def Let_def)

lemma main_ping_fails:
  "os_Getenv e ''MYSQL_URL'' \<noteq> [] \<Longrightarrow> sql_Open e (os_Getenv e ''MYSQL_URL'') = None \<Longrightarrow>
   db_Ping e = Some err \<Longrightarrow>
   main e = ([Getenv ''MYSQL_URL'', Open ''mysql'' (os_Getenv e ''MYSQL_URL''), Ping],
             Fatal (''Error al hacer ping a la base de datos: '' @ err))"
  by (simp add: main_def Let_def)

lemma main_create_fails:
  "os_Getenv e ''MYSQL_URL'' \<noteq> [] \<Longrightarrow> sql_Open e (os_Getenv e ''MYSQL_URL'') = None \<Longrightarrow>
   db_Ping e = None \<Longrightarrow> db_Exec_create e = Some err \<Longrightarrow>
   main e = ([Getenv ''MYSQL_URL'', Open ''mysql'' (os_Getenv e ''MYSQL_URL''), Ping,
              Print msgConnected, ExecCreateTable],
             Fatal (''Error al crear la tabla '' @ [CHR 0x27] @ ''solicitudes'' @ [CHR 0x27] @
                    '': '' @ err))"
  by (simp add: main_def Let_def)

lemma main_serving:
  assumes "snd (main e) = Serving a"
  shows "os_Getenv e ''MYSQL_URL'' \<noteq> [] \<and> sql_Open e (os_Getenv e ''MYSQL_URL'') = None \<and>
         db_Ping e = None \<and> db_Exec_create e = None \<and>
         last (fst (main e)) = Listen a \<and> length (fst (main e)) = 10"
  using assms
  by (auto simp: main_def Let_def split: if_splits option.splits)

lemma msgNoURL_nonempty: "msgNoURL \<noteq> []"
  by (simp add: msgNoURL_def)

subsection \<open>Cross-origin headers of the handlers\<close>

text \<open>Every path through the handlers sets the three cross-origin headers before the status.\<close>

lemma serve_cors:
  "wroteHeader (fst (serve r sv)) \<and>
   sentHeader (fst (serve r sv)) ''Access-Control-Allow-Origin'' = Some [''*''] \<and>
   sentHeader (fst (serve r sv)) ''Access-Control-Allow-Methods'' =
     Some [if Method r \<noteq> ''OPTIONS'' \<and> Path r = ''/submit-service'' then ''POST, OPTIONS''
           else ''POST, GET, OPTIONS, PUT, DELETE''] \<and>
   sentHeader (fst (serve r sv)) ''Access-Control-Allow-Headers'' = Some [allowHeaders]"
proof (cases "Method r = ''OPTIONS''")
  case True
  then show ?thesis
    by (simp add: serve_options WriteHeader_fresh rootWriter_fresh rootWriter_cors)
next
  case notOptions: False
  show ?thesis
  proof (cases "Path r = ''/submit-service''")
    case False
    then show ?thesis using notOptions
      by (simp add: serve_default Error_fresh rootWriter_fresh rootWriter_cors)
  next
    case submit: True
    show ?thesis
    proof (cases "Method r = ''POST''")
      case False
      then show ?thesis using notOptions submit
        by (simp add: serve_method Error_fresh submitWriter_fresh submitWriter_cors)
    next
      case post: True
      obtain err s where d: "Decode (Body r) zeroSolicitud = (err, s)"
        by (cases "Decode (Body r) zeroSolicitud")
      show ?thesis
      proof (cases err)
        case (Some e)
        then have "serve r sv = (Error submitWriter msgBadRequest StatusBadRequest, sv)"
          using serve_undecodable[of r e sv] submit post d by simp
        then show ?thesis using notOptions submit
          by (simp add: Error_fresh submitWriter_fresh submitWriter_cors)
      next
        case None
        show ?thesis
        proof (cases "insert_error (db sv) (Nombre s) (Telefono s) (Servicio s)")
          case (Some e)
          then show ?thesis using notOptions submit post d None
            by (simp add: serve_refused Error_fresh submitWriter_fresh submitWriter_cors)
        next
          case accepted: None
          then show ?thesis using notOptions submit post d None
            by (simp add: serve_accepted Write_fresh submitWriter_fresh submitWriter_cors)
        qed
      qed
    qed
  qed
qed

subsection \<open>Which requests reach the handler\<close>

lemma cleanPath_examples:
  "cleanPath ''/'' = ''/''"
  "cleanPath ''/submit-service'' = ''/submit-service''"
  "cleanPath ''//foo'' = ''/foo''"
  "cleanPath ''/foo'' = ''/foo''"
  "cleanPath ''/a/../x'' = ''/x''"
  "cleanPath ''*'' = ''/*''"
  by code_simp+

lemma cleanPath_nonempty: "cleanPath p \<noteq> []"
  by (simp add: cleanPath_def Clean_def Let_def)

text \<open>A request for a path in clean form is handed to the registered function.\<close>

lemma ServeHTTP_handler:
  assumes "RequestURI r \<noteq> ''*''" and "cleanPath (EscapedPath r) = EscapedPath r"
  shows "ServeHTTP r sv = serve r sv"
proof -
  have "EscapedPath r \<noteq> []" using assms(2) cleanPath_nonempty[of "EscapedPath r"] by simp
  then show ?thesis using assms by (simp add: ServeHTTP_def)
qed

lemma ServeHTTP_postRequest: "ServeHTTP (postRequest b) sv = serve (postRequest b) sv"
  by (rule ServeHTTP_handler) (simp_all add: postRequest_def cleanPath_examples)

text \<open>A request for a path that is not in clean form is answered by the multiplexer.\<close>

lemma ServeHTTP_unclean:
  assumes "RequestURI r \<noteq> ''*''" and "Method r \<noteq> ''CONNECT''"
    and "cleanPath (EscapedPath r) \<noteq> EscapedPath r"
  shows "ServeHTTP r sv =
           (Redirect newResponseWriter r (escapePath (cleanPath (EscapedPath r)))
              StatusTemporaryRedirect, sv)"
  using assms by (simp add: ServeHTTP_def)

lemma Redirect_fresh:
  "wroteHeader (Redirect newResponseWriter r u c)"
  "status (Redirect newResponseWriter r u c) = c"
  "sentHeader (Redirect newResponseWriter r u c) ''Access-Control-Allow-Origin'' = None"
  "sentHeader (Redirect newResponseWriter r u c) ''Access-Control-Allow-Methods'' = None"
  "sentHeader (Redirect newResponseWriter r u c) ''Access-Control-Allow-Headers'' = None"
  "sentHeader (Redirect newResponseWriter r u c) ''Location'' = Some [cleanPath u]"
  by (simp_all add: Redirect_def http_defs Let_def)


lemma escapePath_foo: "escapePath ''/foo'' = ''/foo''" "htmlEscape ''/foo'' = ''/foo''"
  by code_simp+

section \<open>The claims\<close>

text \<open>
  C3. A request to \<^verbatim>\<open>/submit-service\<close> whose method is neither \<^verbatim>\<open>POST\<close> nor \<^verbatim>\<open>OPTIONS\<close> is
  answered with status 405 and the text \<open>msgMethodNotAllowed\<close> of the source and a newline,
  which is a JSON object with the one member \<^verbatim>\<open>message\<close>; the answer is the same for every body, and
  the database and the log are left as they were.
\<close>

theorem method_not_allowed:
  assumes "Path r = ''/submit-service''" and "Method r \<noteq> ''POST''" and "Method r \<noteq> ''OPTIONS''"
  shows "status (fst (serve r sv)) = 405 \<and>
         body (fst (serve r sv)) = msgMethodNotAllowed @ [CHR 0x0A] \<and>
         readValue BeginValue [] (body (fst (serve r sv))) =
           Inr (JObject [(''message'', JString (''M'' @ [CHR 0xC3, CHR 0xA9] @ ''todo no permitido''))]) \<and>
         snd (serve r sv) = sv \<and>
         serve (r\<lparr>Body := b\<rparr>) sv = serve r sv"
proof -
  have a: "serve r sv = (Error submitWriter msgMethodNotAllowed StatusMethodNotAllowed, sv)"
    using assms by (simp add: serve_method)
  have b: "serve (r\<lparr>Body := b\<rparr>) sv =
             (Error submitWriter msgMethodNotAllowed StatusMethodNotAllowed, sv)"
    using assms by (simp add: serve_method)
  show ?thesis
    unfolding a b
    by (simp add: Error_fresh submitWriter_fresh StatusMethodNotAllowed_def
        msgMethodNotAllowed_json)
qed

theorem method_not_allowed_witness:
  "Path \<lparr>Method = ''GET'', Path = ''/submit-service'', Body = anaBody,
      EscapedPath = ''/submit-service'', RequestURI = ''/submit-service''\<rparr> = ''/submit-service'' \<and>
   Method \<lparr>Method = ''GET'', Path = ''/submit-service'', Body = anaBody,
      EscapedPath = ''/submit-service'', RequestURI = ''/submit-service''\<rparr> \<noteq> ''POST'' \<and>
   Method \<lparr>Method = ''GET'', Path = ''/submit-service'', Body = anaBody,
      EscapedPath = ''/submit-service'', RequestURI = ''/submit-service''\<rparr> \<noteq> ''OPTIONS'' \<and>
   status (fst (serve \<lparr>Method = ''GET'', Path = ''/submit-service'', Body = anaBody,
      EscapedPath = ''/submit-service'', RequestURI = ''/submit-service''\<rparr>
                  (server1 accepting))) = 405 \<and>
   snd (serve \<lparr>Method = ''GET'', Path = ''/submit-service'', Body = anaBody,
      EscapedPath = ''/submit-service'', RequestURI = ''/submit-service''\<rparr>
          (server1 accepting)) = server1 accepting"
  using method_not_allowed[of "\<lparr>Method = ''GET'', Path = ''/submit-service'', Body = anaBody,
      EscapedPath = ''/submit-service'', RequestURI = ''/submit-service''\<rparr>"
      "server1 accepting"]
  by simp

text \<open>
  C2. A POST to \<^verbatim>\<open>/submit-service\<close> whose body \<^verbatim>\<open>Decode\<close> rejects (no JSON value can be read,
  or the value does not fit the struct) is answered with status 400 and the text
  \<open>msgBadRequest\<close> and a newline, which is a JSON object with the one member \<^verbatim>\<open>message\<close>;
  no statement is sent to the database, and the database and the log are left as they were.
\<close>

theorem undecodable_body_rejected:
  assumes "Method r = ''POST''" and "Path r = ''/submit-service''"
    and "fst (Decode (Body r) zeroSolicitud) = Some e"
  shows "status (fst (serve r sv)) = 400 \<and>
         body (fst (serve r sv)) = msgBadRequest @ [CHR 0x0A] \<and>
         readValue BeginValue [] (body (fst (serve r sv))) =
           Inr (JObject [(''message'', JString ''Error al decodificar la solicitud JSON'')]) \<and>
         snd (serve r sv) = sv"
proof -
  have a: "serve r sv = (Error submitWriter msgBadRequest StatusBadRequest, sv)"
    using assms by (simp add: serve_undecodable)
  show ?thesis
    unfolding a
    by (simp add: Error_fresh submitWriter_fresh StatusBadRequest_def msgBadRequest_json)
qed

theorem undecodable_body_rejected_witness:
  "Method (postRequest truncatedBody) = ''POST'' \<and>
   Path (postRequest truncatedBody) = ''/submit-service'' \<and>
   fst (Decode (Body (postRequest truncatedBody)) zeroSolicitud) = Some ErrUnexpectedEOF \<and>
   status (fst (serve (postRequest truncatedBody) (server1 accepting))) = 400 \<and>
   snd (serve (postRequest truncatedBody) (server1 accepting)) = server1 accepting \<and>
   fst (Decode (Body (postRequest wrongTypeBody)) zeroSolicitud) = Some UnmarshalTypeError \<and>
   status (fst (serve (postRequest wrongTypeBody) (server1 accepting))) = 400 \<and>
   snd (serve (postRequest wrongTypeBody) (server1 accepting)) = server1 accepting"
  using undecodable_body_rejected[of "postRequest truncatedBody" ErrUnexpectedEOF
      "server1 accepting"]
    undecodable_body_rejected[of "postRequest wrongTypeBody" UnmarshalTypeError
      "server1 accepting"]
  by (simp add: postRequest_def Decode_truncatedBody Decode_wrongTypeBody)



text \<open>
  C1, as stated, fails: the body of the request decodes into three non-empty fields, but
  the database has lost its connection, and the handler answers 500 and writes no row.
\<close>

theorem valid_post_refused_counterexample:
  "Method (postRequest anaBody) = ''POST'' \<and> Path (postRequest anaBody) = ''/submit-service'' \<and>
   Decode (Body (postRequest anaBody)) zeroSolicitud = (None, ana) \<and>
   Nombre ana \<noteq> [] \<and> Telefono ana \<noteq> [] \<and> Servicio ana \<noteq> [] \<and>
   status (fst (serve (postRequest anaBody) (server1 disconnected))) = 500 \<and>
   solicitudes (db (snd (serve (postRequest anaBody) (server1 disconnected)))) =
     solicitudes (db (server1 disconnected))"
proof -
  have h: "Decode (Body (postRequest anaBody)) zeroSolicitud = (None, ana)"
    by (simp add: postRequest_def Decode_anaBody)
  have f: "insert_error (db (server1 disconnected)) (Nombre ana) (Telefono ana) (Servicio ana) =
             Some ''invalid connection''"
    by (simp add: server1_def disconnected_def)
  have "serve (postRequest anaBody) (server1 disconnected) =
          (Error submitWriter msgInternalError StatusInternalServerError,
           \<lparr>db = (db (server1 disconnected))\<lparr>execs := execs (db (server1 disconnected)) + 1\<rparr>,
            logged = logged (server1 disconnected) @
              [logReceived ana, logInsertError ''invalid connection'']\<rparr>)"
    using serve_refused[OF _ _ h f] by (simp add: postRequest_def)
  then show ?thesis
    using h
    by (simp add: Error_fresh submitWriter_fresh StatusInternalServerError_def
        postRequest_def ana_def)
qed

text \<open>
  C1, amended. A POST to \<^verbatim>\<open>/submit-service\<close> whose body decodes into three non-empty fields,
  and whose insert the database accepts, is answered with status 200 and the JSON object
  with the one member \<^verbatim>\<open>message\<close> and the success text; exactly one row is appended to
  the table, and its three text fields are the fields of the request.
\<close>

theorem accepted_post_stored:
  assumes "Method r = ''POST''" and "Path r = ''/submit-service''"
    and "Decode (Body r) zeroSolicitud = (None, s)"
    and "Nombre s \<noteq> []" and "Telefono s \<noteq> []" and "Servicio s \<noteq> []"
    and "insert_error (db sv) (Nombre s) (Telefono s) (Servicio s) = None"
  shows "status (fst (serve r sv)) = 200 \<and>
         body (fst (serve r sv)) = msgSuccess \<and>
         readValue BeginValue [] (body (fst (serve r sv))) =
           Inr (JObject [(''message'',
                  JString (''Solicitud recibida con '' @ [CHR 0xC3, CHR 0xA9] @ ''xito!''))]) \<and>
         sentHeader (fst (serve r sv)) ''Content-Type'' = Some [''application/json''] \<and>
         solicitudes (db (snd (serve r sv))) = solicitudes (db sv) @ [newRow (db sv) s] \<and>
         nombre (newRow (db sv) s) = Nombre s \<and>
         telefono (newRow (db sv) s) = Telefono s \<and>
         servicio (newRow (db sv) s) = Servicio s"
proof -
  have a: "serve r sv =
     (Write msgSuccess submitWriter,
      \<lparr>db = (db sv)\<lparr>solicitudes := solicitudes (db sv) @ [newRow (db sv) s],
                     auto_increment := auto_increment (db sv) + 1,
                     execs := execs (db sv) + 1\<rparr>,
       logged = logged sv @ [logReceived s]\<rparr>)"
    using assms by (simp add: serve_accepted)
  show ?thesis
    unfolding a
    by (simp add: Write_fresh submitWriter_fresh submitWriter_cors msgSuccess_json newRow_def)
qed

theorem accepted_post_stored_witness:
  "Method (postRequest anaBody) = ''POST'' \<and> Path (postRequest anaBody) = ''/submit-service'' \<and>
   Decode (Body (postRequest anaBody)) zeroSolicitud = (None, ana) \<and>
   Nombre ana \<noteq> [] \<and> Telefono ana \<noteq> [] \<and> Servicio ana \<noteq> [] \<and>
   insert_error (db (server1 accepting)) (Nombre ana) (Telefono ana) (Servicio ana) = None \<and>
   status (fst (serve (postRequest anaBody) (server1 accepting))) = 200 \<and>
   solicitudes (db (snd (serve (postRequest anaBody) (server1 accepting)))) =
     [oneRow,
      \<lparr>id_col = 2, nombre = ''Ana'', telefono = ''555-1234'', servicio = ''limpieza'',
       fecha_creacion = 1700000100\<rparr>]"
proof -
  have h: "Decode (Body (postRequest anaBody)) zeroSolicitud = (None, ana)"
    by (simp add: postRequest_def Decode_anaBody)
  have f: "insert_error (db (server1 accepting)) (Nombre ana) (Telefono ana) (Servicio ana) = None"
    by (simp add: server1_def accepting_def)
  have n: "Nombre ana \<noteq> []" "Telefono ana \<noteq> []" "Servicio ana \<noteq> []"
    by (simp_all add: ana_def)
  note t = accepted_post_stored[of "postRequest anaBody" ana "server1 accepting",
      OF _ _ h n f]
  show ?thesis
    using t h f n by (simp add: postRequest_def server1_def newRow_def ana_def)
qed

text \<open>
  C10, as stated, fails: the body \<^verbatim>\<open>{"nombre":123}\<close> is a JSON object from which the fields
  \<^verbatim>\<open>telefono\<close> and \<^verbatim>\<open>servicio\<close> are missing, and the database accepts every insert, but
  decoding fails on the number, and the handler answers 400 and writes no row.
\<close>

theorem missing_fields_wrong_type_counterexample:
  "readValue BeginValue [] (Body (postRequest wrongTypeBody)) =
     Inr (JObject [(''nombre'', JNumber ''123'')]) \<and>
   missing ''telefono'' [(''nombre'', JNumber ''123'')] \<and>
   missing ''servicio'' [(''nombre'', JNumber ''123'')] \<and>
   fst (Decode (Body (postRequest wrongTypeBody)) zeroSolicitud) = Some UnmarshalTypeError \<and>
   status (fst (serve (postRequest wrongTypeBody) (server1 accepting))) = 400 \<and>
   solicitudes (db (snd (serve (postRequest wrongTypeBody) (server1 accepting)))) =
     solicitudes (db (server1 accepting))"
proof -
  have d: "fst (Decode (Body (postRequest wrongTypeBody)) zeroSolicitud) = Some UnmarshalTypeError"
    by (simp add: postRequest_def Decode_wrongTypeBody)
  have "serve (postRequest wrongTypeBody) (server1 accepting) =
          (Error submitWriter msgBadRequest StatusBadRequest, server1 accepting)"
    using serve_undecodable[OF _ _ d] by (simp add: postRequest_def)
  moreover have "missing ''telefono'' [(''nombre'', JNumber ''123'')]"
    by code_simp
  moreover have "missing ''servicio'' [(''nombre'', JNumber ''123'')]"
    by code_simp
  ultimately show ?thesis
    using d
    by (simp add: Error_fresh submitWriter_fresh StatusBadRequest_def postRequest_def
        readValue_wrongTypeBody)
qed

text \<open>
  C10, amended. Field presence is not enforced: for a POST to \<^verbatim>\<open>/submit-service\<close> whose body
  is a JSON object in which every member whose key names one of the three fields holds a
  string or \<^verbatim>\<open>null\<close>, and whose insert the database accepts, decoding succeeds, the handler
  answers 200, and one row is appended that holds the decoded fields, with the empty string
  in every field that no key of the object names.
\<close>

theorem missing_fields_stored_empty:
  assumes "Method r = ''POST''" and "Path r = ''/submit-service''"
    and "readValue BeginValue [] (Body r) = Inr (JObject ms)"
    and "list_all fits ms"
    and "s = snd (Decode (Body r) zeroSolicitud)"
    and "insert_error (db sv) (Nombre s) (Telefono s) (Servicio s) = None"
  shows "fst (Decode (Body r) zeroSolicitud) = None \<and>
         status (fst (serve r sv)) = 200 \<and>
         body (fst (serve r sv)) = msgSuccess \<and>
         solicitudes (db (snd (serve r sv))) = solicitudes (db sv) @ [newRow (db sv) s] \<and>
         (missing ''nombre'' ms \<longrightarrow> nombre (newRow (db sv) s) = []) \<and>
         (missing ''telefono'' ms \<longrightarrow> telefono (newRow (db sv) s) = []) \<and>
         (missing ''servicio'' ms \<longrightarrow> servicio (newRow (db sv) s) = [])"
proof -
  have e: "fst (Decode (Body r) zeroSolicitud) = None"
    using assms(3,4) by (simp add: Decode_object(2))
  then have d: "Decode (Body r) zeroSolicitud = (None, s)"
    using assms(5) by (cases "Decode (Body r) zeroSolicitud") simp
  have f: "s = snd (foldl setField (None, zeroSolicitud) ms)"
    using assms(3,5) by (simp add: Decode_object(1))
  have a: "serve r sv =
     (Write msgSuccess submitWriter,
      \<lparr>db = (db sv)\<lparr>solicitudes := solicitudes (db sv) @ [newRow (db sv) s],
                     auto_increment := auto_increment (db sv) + 1,
                     execs := execs (db sv) + 1\<rparr>,
       logged = logged sv @ [logReceived s]\<rparr>)"
    using assms(1,2,6) d by (simp add: serve_accepted)
  have n: "missing ''nombre'' ms \<longrightarrow> Nombre s = []"
    using foldl_setField_Nombre[of ms None zeroSolicitud] f by (simp add: zeroSolicitud_def)
  have t: "missing ''telefono'' ms \<longrightarrow> Telefono s = []"
    using foldl_setField_Telefono[of ms None zeroSolicitud] f by (simp add: zeroSolicitud_def)
  have v: "missing ''servicio'' ms \<longrightarrow> Servicio s = []"
    using foldl_setField_Servicio[of ms None zeroSolicitud] f by (simp add: zeroSolicitud_def)
  show ?thesis
    unfolding a using e n t v
    by (simp add: Write_fresh submitWriter_fresh newRow_def)
qed

theorem missing_fields_stored_empty_witness:
  "Method (postRequest ''{}'') = ''POST'' \<and> Path (postRequest ''{}'') = ''/submit-service'' \<and>
   readValue BeginValue [] (Body (postRequest ''{}'')) = Inr (JObject []) \<and>
   list_all fits [] \<and>
   missing ''nombre'' [] \<and> missing ''telefono'' [] \<and> missing ''servicio'' [] \<and>
   insert_error (db (server1 accepting)) [] [] [] = None \<and>
   status (fst (serve (postRequest ''{}'') (server1 accepting))) = 200 \<and>
   solicitudes (db (snd (serve (postRequest ''{}'') (server1 accepting)))) =
     [oneRow,
      \<lparr>id_col = 2, nombre = [], telefono = [], servicio = [], fecha_creacion = 1700000100\<rparr>]"
proof -
  have rv: "readValue BeginValue [] (Body (postRequest ''{}'')) = Inr (JObject [])"
    by (simp add: postRequest_def readValue_emptyObject del: readValue.simps)
  have s: "snd (Decode (Body (postRequest ''{}'')) zeroSolicitud) = zeroSolicitud"
    using Decode_object(1)[OF rv, of zeroSolicitud] by simp
  have f: "insert_error (db (server1 accepting)) (Nombre zeroSolicitud)
             (Telefono zeroSolicitud) (Servicio zeroSolicitud) = None"
    by (simp add: server1_def accepting_def)
  have m: "missing ''nombre'' []" "missing ''telefono'' []" "missing ''servicio'' []"
    by (simp_all add: missing_def)
  note t = missing_fields_stored_empty[of "postRequest ''{}''" "[]" zeroSolicitud
      "server1 accepting", OF _ _ rv _ s[symmetric] f]
  show ?thesis
    using t m
    by (simp add: postRequest_def server1_def newRow_def zeroSolicitud_def accepting_def
        readValue_emptyObject del: readValue.simps)
qed

text \<open>
  C6. Submission is not idempotent: when the same POST to \<^verbatim>\<open>/submit-service\<close> is served twice
  and both answers are 200, the table has two more rows, with the same three text fields
  and different ids, so the second request changes the state again; and ids that were
  pairwise different before are pairwise different after.
\<close>

theorem submission_not_idempotent:
  assumes "Method r = ''POST''" and "Path r = ''/submit-service''"
    and "serve r sv = (w1, sv1)" and "serve r sv1 = (w2, sv2)"
    and "status w1 = 200" and "status w2 = 200"
  shows "(\<exists>a b. solicitudes (db sv2) = solicitudes (db sv) @ [a, b] \<and>
                 id_col a \<noteq> id_col b \<and> a \<noteq> b \<and>
                 nombre a = nombre b \<and> telefono a = telefono b \<and> servicio a = servicio b) \<and>
         sv2 \<noteq> sv1 \<and>
         (ids_unique (db sv) \<longrightarrow> ids_unique (db sv2))"
proof -
  obtain s where d: "Decode (Body r) zeroSolicitud = (None, s)"
    and f1: "insert_error (db sv) (Nombre s) (Telefono s) (Servicio s) = None"
    using post_status_cases[of r sv] assms(1,2,3,5)
    by (cases "Decode (Body r) zeroSolicitud") auto
  have f2: "insert_error (db sv1) (Nombre s) (Telefono s) (Servicio s) = None"
    using post_status_cases[of r sv1] assms(1,2,4,6) d by simp
  have s1: "sv1 = \<lparr>db = (db sv)\<lparr>solicitudes := solicitudes (db sv) @ [newRow (db sv) s],
                     auto_increment := auto_increment (db sv) + 1,
                     execs := execs (db sv) + 1\<rparr>,
       logged = logged sv @ [logReceived s]\<rparr>"
    using serve_accepted[OF assms(2,1) d f1] assms(3) by simp
  have s2: "sv2 = \<lparr>db = (db sv1)\<lparr>solicitudes := solicitudes (db sv1) @ [newRow (db sv1) s],
                     auto_increment := auto_increment (db sv1) + 1,
                     execs := execs (db sv1) + 1\<rparr>,
       logged = logged sv1 @ [logReceived s]\<rparr>"
    using serve_accepted[OF assms(2,1) d f2] assms(4) by simp
  have rows: "solicitudes (db sv2) =
                solicitudes (db sv) @ [newRow (db sv) s, newRow (db sv1) s]"
    by (simp add: s2) (simp add: s1)
  have ids: "id_col (newRow (db sv1) s) = id_col (newRow (db sv) s) + 1"
    by (simp add: s1 newRow_def)
  have ne: "sv2 \<noteq> sv1"
  proof
    assume "sv2 = sv1"
    then have "solicitudes (db sv2) = solicitudes (db sv1)" by simp
    then show False by (simp add: s2)
  qed
  have u: "ids_unique (db sv) \<longrightarrow> ids_unique (db sv2)"
    using ids_unique_serve[of sv r] ids_unique_serve[of sv1 r] assms(3,4) by simp
  have "id_col (newRow (db sv) s) \<noteq> id_col (newRow (db sv1) s) \<and>
        newRow (db sv) s \<noteq> newRow (db sv1) s \<and>
        nombre (newRow (db sv) s) = nombre (newRow (db sv1) s) \<and>
        telefono (newRow (db sv) s) = telefono (newRow (db sv1) s) \<and>
        servicio (newRow (db sv) s) = servicio (newRow (db sv1) s)"
    using ids by (auto simp: newRow_def)
  then show ?thesis using rows ne u by blast
qed

theorem submission_not_idempotent_witness:
  "Method (postRequest anaBody) = ''POST'' \<and> Path (postRequest anaBody) = ''/submit-service'' \<and>
   status (fst (serve (postRequest anaBody) (server1 accepting))) = 200 \<and>
   status (fst (serve (postRequest anaBody)
                  (snd (serve (postRequest anaBody) (server1 accepting))))) = 200 \<and>
   ids_unique (db (server1 accepting)) \<and>
   (\<exists>a b. solicitudes (db (snd (serve (postRequest anaBody)
                  (snd (serve (postRequest anaBody) (server1 accepting)))))) =
             solicitudes (db (server1 accepting)) @ [a, b] \<and>
           id_col a \<noteq> id_col b \<and> a \<noteq> b \<and>
           nombre a = nombre b \<and> telefono a = telefono b \<and> servicio a = servicio b) \<and>
   ids_unique (db (snd (serve (postRequest anaBody)
                  (snd (serve (postRequest anaBody) (server1 accepting))))))"
proof -
  have h: "Decode (Body (postRequest anaBody)) zeroSolicitud = (None, ana)"
    by (simp add: postRequest_def Decode_anaBody)
  have m: "Method (postRequest anaBody) = ''POST''" "Path (postRequest anaBody) = ''/submit-service''"
    by (simp_all add: postRequest_def)
  have f1: "insert_error (db (server1 accepting)) (Nombre ana) (Telefono ana) (Servicio ana) = None"
    by (simp add: server1_def accepting_def)
  note a1 = serve_accepted[OF m(2) m(1) h f1]
  have st1: "status (fst (serve (postRequest anaBody) (server1 accepting))) = 200"
    unfolding a1 by (simp add: Write_fresh submitWriter_fresh)
  have f2: "insert_error (db (snd (serve (postRequest anaBody) (server1 accepting))))
              (Nombre ana) (Telefono ana) (Servicio ana) = None"
    unfolding a1 by (simp add: server1_def accepting_def)
  note a2 = serve_accepted[OF m(2) m(1) h f2]
  have st2: "status (fst (serve (postRequest anaBody)
                  (snd (serve (postRequest anaBody) (server1 accepting))))) = 200"
    unfolding a2 by (simp add: Write_fresh submitWriter_fresh)
  have u: "ids_unique (db (server1 accepting))"
    by (simp add: ids_unique_def server1_def oneRow_def)
  note t = submission_not_idempotent[OF m
      surjective_pairing[of "serve (postRequest anaBody) (server1 accepting)"]
      surjective_pairing[of "serve (postRequest anaBody)
                  (snd (serve (postRequest anaBody) (server1 accepting)))"] st1 st2]
  show ?thesis using t m st1 st2 u by blast
qed

text \<open>
  C8. When the variable \<^verbatim>\<open>MYSQL_URL\<close> is absent, or \<^verbatim>\<open>sql.Open\<close> returns an error, or the ping
  fails, or the \<^verbatim>\<open>CREATE TABLE\<close> statement fails, \<^verbatim>\<open>main\<close> ends in \<^verbatim>\<open>log.Fatal\<close> with a
  message that is not empty; it has made no call twice, the last call it made is one of
  the four start-up steps, and it has neither registered the handler nor started to
  listen. When \<^verbatim>\<open>main\<close> is serving, the four steps have all succeeded and listening was
  its last call.
\<close>

theorem startup_failure_fatal:
  "(vars e ''MYSQL_URL'' = None \<or> sql_Open e (os_Getenv e ''MYSQL_URL'') \<noteq> None \<or>
    db_Ping e \<noteq> None \<or> db_Exec_create e \<noteq> None \<longrightarrow>
      (\<exists>msg. snd (main e) = Fatal msg \<and> msg \<noteq> []) \<and>
      distinct (fst (main e)) \<and>
      last (fst (main e)) \<in>
        {Getenv ''MYSQL_URL'', Open ''mysql'' (os_Getenv e ''MYSQL_URL''), Ping, ExecCreateTable} \<and>
      HandleFunc ''/'' \<notin> set (fst (main e)) \<and>
      \<not> list_ex isListen (fst (main e))) \<and>
   (snd (main e) = Serving a \<longrightarrow>
      vars e ''MYSQL_URL'' \<noteq> None \<and> os_Getenv e ''MYSQL_URL'' \<noteq> [] \<and>
      sql_Open e (os_Getenv e ''MYSQL_URL'') = None \<and>
      db_Ping e = None \<and> db_Exec_create e = None \<and>
      last (fst (main e)) = Listen a)"
proof (intro conjI impI)
  assume "snd (main e) = Serving a"
  note s = main_serving[OF this]
  from s show "os_Getenv e ''MYSQL_URL'' \<noteq> []" by simp
  then show "vars e ''MYSQL_URL'' \<noteq> None" by (auto simp: os_Getenv_def split: option.splits)
  from s show "sql_Open e (os_Getenv e ''MYSQL_URL'') = None" by simp
  from s show "db_Ping e = None" by simp
  from s show "db_Exec_create e = None" by simp
  from s show "last (fst (main e)) = Listen a" by simp
next
  assume f: "vars e ''MYSQL_URL'' = None \<or> sql_Open e (os_Getenv e ''MYSQL_URL'') \<noteq> None \<or>
    db_Ping e \<noteq> None \<or> db_Exec_create e \<noteq> None"
  have "(\<exists>msg. snd (main e) = Fatal msg \<and> msg \<noteq> []) \<and>
      distinct (fst (main e)) \<and>
      last (fst (main e)) \<in>
        {Getenv ''MYSQL_URL'', Open ''mysql'' (os_Getenv e ''MYSQL_URL''), Ping, ExecCreateTable} \<and>
      HandleFunc ''/'' \<notin> set (fst (main e)) \<and>
      \<not> list_ex isListen (fst (main e))"
  proof (cases "os_Getenv e ''MYSQL_URL'' = []")
    case True
    then show ?thesis
      by (simp add: main_no_url msgNoURL_nonempty isListen_def)
  next
    case url: False
    then have v: "vars e ''MYSQL_URL'' \<noteq> None" by (auto simp: os_Getenv_def split: option.splits)
    show ?thesis
    proof (cases "sql_Open e (os_Getenv e ''MYSQL_URL'')")
      case (Some err)
      then show ?thesis using url
        by (simp add: main_open_fails isListen_def)
    next
      case opened: None
      show ?thesis
      proof (cases "db_Ping e")
        case (Some err)
        then show ?thesis using url opened
          by (simp add: main_ping_fails isListen_def)
      next
        case pinged: None
        show ?thesis
        proof (cases "db_Exec_create e")
          case (Some err)
          then show ?thesis using url opened pinged
            by (simp add: main_create_fails isListen_def)
        next
          case None
          then show ?thesis using f v opened pinged by simp
        qed
      qed
    qed
  qed
  then show "\<exists>msg. snd (main e) = Fatal msg \<and> msg \<noteq> []"
    and "distinct (fst (main e))"
    and "last (fst (main e)) \<in>
        {Getenv ''MYSQL_URL'', Open ''mysql'' (os_Getenv e ''MYSQL_URL''), Ping, ExecCreateTable}"
    and "HandleFunc ''/'' \<notin> set (fst (main e))"
    and "\<not> list_ex isListen (fst (main e))"
    by simp_all
qed

theorem startup_failure_fatal_witness:
  "vars env0 ''MYSQL_URL'' = None \<and>
   main env0 = ([Getenv ''MYSQL_URL''], Fatal msgNoURL) \<and>
   db_Ping (envURL\<lparr>db_Ping := Some ''connection refused''\<rparr>) \<noteq> None \<and>
   snd (main (envURL\<lparr>db_Ping := Some ''connection refused''\<rparr>)) =
     Fatal ''Error al hacer ping a la base de datos: connection refused'' \<and>
   last (fst (main (envURL\<lparr>db_Ping := Some ''connection refused''\<rparr>))) = Ping \<and>
   snd (main envURL) = Serving '':8080'' \<and>
   sql_Open envURL (os_Getenv envURL ''MYSQL_URL'') = None \<and>
   db_Ping envURL = None \<and> db_Exec_create envURL = None"
proof -
  have a: "vars env0 ''MYSQL_URL'' = None" by (simp add: env0_def)
  have b: "db_Ping (envURL\<lparr>db_Ping := Some ''connection refused''\<rparr>) \<noteq> None" by simp
  have c: "snd (main envURL) = Serving '':8080''"
    by (simp add: main_def envURL_def env0_def os_Getenv_def Let_def)
  have m0: "main env0 = ([Getenv ''MYSQL_URL''], Fatal msgNoURL)"
    by (simp add: main_no_url os_Getenv_def env0_def)
  have m1: "main (envURL\<lparr>db_Ping := Some ''connection refused''\<rparr>) =
     ([Getenv ''MYSQL_URL'', Open ''mysql'' ''user:pw@tcp(db:3306)/railway'', Ping],
      Fatal ''Error al hacer ping a la base de datos: connection refused'')"
    by (simp add: main_def envURL_def env0_def os_Getenv_def Let_def)
  note t0 = startup_failure_fatal[of env0 "'':8080''"]
  note t1 = startup_failure_fatal[of "envURL\<lparr>db_Ping := Some ''connection refused''\<rparr>" "'':8080''"]
  note t2 = startup_failure_fatal[of envURL "'':8080''"]
  show ?thesis using t0 t1 t2 a b c m0 m1 by simp
qed

text \<open>
  C4, as stated, fails: the claim is for every path, but a request with method \<^verbatim>\<open>OPTIONS\<close>
  for the path \<^verbatim>\<open>//foo\<close> is answered by the multiplexer with a redirect to \<^verbatim>\<open>/foo\<close>, status
  307, and not with status 200.
\<close>

theorem options_unclean_path_counterexample:
  "Method (request ''OPTIONS'' ''//foo'' []) = ''OPTIONS'' \<and>
   status (fst (ServeHTTP (request ''OPTIONS'' ''//foo'' []) (server1 accepting))) = 307 \<and>
   sentHeader (fst (ServeHTTP (request ''OPTIONS'' ''//foo'' []) (server1 accepting)))
     ''Location'' = Some [''/foo'']"
proof -
  have "ServeHTTP (request ''OPTIONS'' ''//foo'' []) (server1 accepting) =
          (Redirect newResponseWriter (request ''OPTIONS'' ''//foo'' [])
             (escapePath (cleanPath ''//foo'')) StatusTemporaryRedirect, server1 accepting)"
    using ServeHTTP_unclean[of "request ''OPTIONS'' ''//foo'' []" "server1 accepting"]
    by (simp add: request_def cleanPath_examples)
  then show ?thesis
    by (simp add: Redirect_fresh cleanPath_examples escapePath_foo StatusTemporaryRedirect_def)
      (simp add: request_def)
qed

text \<open>
  C4, amended. A request with method \<^verbatim>\<open>OPTIONS\<close> for a path in clean form (the target is not
  \<^verbatim>\<open>*\<close>, and the path has no empty, \<^verbatim>\<open>.\<close> or \<^verbatim>\<open>..\<close> segment, so that the multiplexer hands
  the request to the handler) is answered with status 200 and an empty body; the answer is
  the same for every such path and every body, and the database and the log are left as
  they were, with no statement sent. The branch of \<^verbatim>\<open>submitServiceHandler\<close> for \<^verbatim>\<open>OPTIONS\<close>
  does the same when the handler is called on its own.
\<close>

theorem options_preflight:
  assumes "Method r = ''OPTIONS''" and "RequestURI r \<noteq> ''*''"
    and "cleanPath (EscapedPath r) = EscapedPath r"
    and "Method r' = ''OPTIONS''" and "RequestURI r' \<noteq> ''*''"
    and "cleanPath (EscapedPath r') = EscapedPath r'"
  shows "status (fst (ServeHTTP r sv)) = 200 \<and> body (fst (ServeHTTP r sv)) = [] \<and>
         snd (ServeHTTP r sv) = sv \<and>
         ServeHTTP r' sv = ServeHTTP r sv \<and>
         status (fst (submitServiceHandler newResponseWriter r sv)) = 200 \<and>
         body (fst (submitServiceHandler newResponseWriter r sv)) = [] \<and>
         snd (submitServiceHandler newResponseWriter r sv) = sv"
proof -
  have a: "ServeHTTP r sv = (WriteHeader StatusOK rootWriter, sv)"
    using assms(1-3) by (simp add: ServeHTTP_handler serve_options)
  have b: "ServeHTTP r' sv = (WriteHeader StatusOK rootWriter, sv)"
    using assms(4-6) by (simp add: ServeHTTP_handler serve_options)
  have c: "submitServiceHandler newResponseWriter r sv =
             (WriteHeader StatusOK
                (Header_Set ''Content-Type'' ''application/json''
                  (Header_Set ''Access-Control-Allow-Headers'' allowHeaders
                    (Header_Set ''Access-Control-Allow-Methods'' ''POST, OPTIONS''
                      (Header_Set ''Access-Control-Allow-Origin'' ''*'' newResponseWriter)))), sv)"
    using assms(1) by (simp add: submitServiceHandler_def)
  show ?thesis
    unfolding a b c by (simp add: WriteHeader_fresh rootWriter_fresh StatusOK_def)
      (simp add: http_defs)
qed

theorem options_preflight_witness:
  "Method (request ''OPTIONS'' ''/submit-service'' anaBody) = ''OPTIONS'' \<and>
   RequestURI (request ''OPTIONS'' ''/submit-service'' anaBody) \<noteq> ''*'' \<and>
   cleanPath (EscapedPath (request ''OPTIONS'' ''/submit-service'' anaBody)) =
     EscapedPath (request ''OPTIONS'' ''/submit-service'' anaBody) \<and>
   Method (request ''OPTIONS'' ''/'' []) = ''OPTIONS'' \<and>
   RequestURI (request ''OPTIONS'' ''/'' []) \<noteq> ''*'' \<and>
   cleanPath (EscapedPath (request ''OPTIONS'' ''/'' [])) =
     EscapedPath (request ''OPTIONS'' ''/'' []) \<and>
   status (fst (ServeHTTP (request ''OPTIONS'' ''/submit-service'' anaBody)
                  (server1 accepting))) = 200 \<and>
   body (fst (ServeHTTP (request ''OPTIONS'' ''/submit-service'' anaBody)
                (server1 accepting))) = [] \<and>
   snd (ServeHTTP (request ''OPTIONS'' ''/submit-service'' anaBody) (server1 accepting)) =
     server1 accepting \<and>
   ServeHTTP (request ''OPTIONS'' ''/'' []) (server1 accepting) =
     ServeHTTP (request ''OPTIONS'' ''/submit-service'' anaBody) (server1 accepting)"
proof -
  have h: "Method (request ''OPTIONS'' ''/submit-service'' anaBody) = ''OPTIONS''"
    "RequestURI (request ''OPTIONS'' ''/submit-service'' anaBody) \<noteq> ''*''"
    "cleanPath (EscapedPath (request ''OPTIONS'' ''/submit-service'' anaBody)) =
       EscapedPath (request ''OPTIONS'' ''/submit-service'' anaBody)"
    "Method (request ''OPTIONS'' ''/'' []) = ''OPTIONS''"
    "RequestURI (request ''OPTIONS'' ''/'' []) \<noteq> ''*''"
    "cleanPath (EscapedPath (request ''OPTIONS'' ''/'' [])) =
       EscapedPath (request ''OPTIONS'' ''/'' [])"
    by (simp_all add: request_def cleanPath_examples)
  show ?thesis
    using options_preflight[OF h, of "server1 accepting"] h by simp
qed




text \<open>
  C7, as stated, fails: not every response of the service carries the cross-origin
  headers. The redirect with which the multiplexer answers a GET for \<^verbatim>\<open>//foo\<close>, and the
  answer of the server itself to \<^verbatim>\<open>OPTIONS *\<close>, are written without the handler being
  called, and have none of the three headers.
\<close>

theorem response_without_cors_counterexample:
  "wroteHeader (fst (ServeHTTP (request ''GET'' ''//foo'' []) (server1 accepting))) \<and>
   sentHeader (fst (ServeHTTP (request ''GET'' ''//foo'' []) (server1 accepting)))
     ''Access-Control-Allow-Origin'' = None \<and>
   sentHeader (fst (ServeHTTP (request ''GET'' ''//foo'' []) (server1 accepting)))
     ''Access-Control-Allow-Methods'' = None \<and>
   sentHeader (fst (ServeHTTP (request ''GET'' ''//foo'' []) (server1 accepting)))
     ''Access-Control-Allow-Headers'' = None \<and>
   wroteHeader (fst (ServeHTTP (request ''OPTIONS'' ''*'' []) (server1 accepting))) \<and>
   status (fst (ServeHTTP (request ''OPTIONS'' ''*'' []) (server1 accepting))) = 200 \<and>
   sentHeader (fst (ServeHTTP (request ''OPTIONS'' ''*'' []) (server1 accepting)))
     ''Access-Control-Allow-Origin'' = None"
proof -
  have a: "ServeHTTP (request ''GET'' ''//foo'' []) (server1 accepting) =
          (Redirect newResponseWriter (request ''GET'' ''//foo'' [])
             (escapePath (cleanPath ''//foo'')) StatusTemporaryRedirect, server1 accepting)"
    using ServeHTTP_unclean[of "request ''GET'' ''//foo'' []" "server1 accepting"]
    by (simp add: request_def cleanPath_examples)
  have b: "ServeHTTP (request ''OPTIONS'' ''*'' []) (server1 accepting) =
          (finishRequest (globalOptionsHandler newResponseWriter), server1 accepting)"
    by (simp add: ServeHTTP_def request_def)
  show ?thesis
    unfolding a b
    by (simp add: Redirect_fresh)
      (simp add: finishRequest_def globalOptionsHandler_def http_defs)
qed

text \<open>
  C7, amended. Every response that the handlers of the program write carries the three
  cross-origin headers: for every request for a path in clean form (the target is not
  \<^verbatim>\<open>*\<close>, and the path has no empty, \<^verbatim>\<open>.\<close> or \<^verbatim>\<open>..\<close> segment, so that the multiplexer hands the
  request to the handler) and every state of the server, whether the answer is the success,
  400, 405, 500, the pre-flight answer or the welcome text, the headers sent have
  \<^verbatim>\<open>Access-Control-Allow-Origin: *\<close>, an \<^verbatim>\<open>Access-Control-Allow-Methods\<close> (the list of the
  submission handler for a request it handles, the list of the root handler otherwise) and
  the \<^verbatim>\<open>Access-Control-Allow-Headers\<close> list.
\<close>

theorem cors_headers_on_handler_responses:
  assumes "RequestURI r \<noteq> ''*''" and "cleanPath (EscapedPath r) = EscapedPath r"
  shows "wroteHeader (fst (ServeHTTP r sv)) \<and>
         sentHeader (fst (ServeHTTP r sv)) ''Access-Control-Allow-Origin'' = Some [''*''] \<and>
         sentHeader (fst (ServeHTTP r sv)) ''Access-Control-Allow-Methods'' =
           Some [if Method r \<noteq> ''OPTIONS'' \<and> Path r = ''/submit-service''
                 then ''POST, OPTIONS'' else ''POST, GET, OPTIONS, PUT, DELETE''] \<and>
         sentHeader (fst (ServeHTTP r sv)) ''Access-Control-Allow-Headers'' =
           Some [allowHeaders]"
  using serve_cors[of r sv] ServeHTTP_handler[OF assms, of sv] by simp

theorem cors_headers_on_handler_responses_witness:
  "RequestURI (postRequest truncatedBody) \<noteq> ''*'' \<and>
   cleanPath (EscapedPath (postRequest truncatedBody)) = EscapedPath (postRequest truncatedBody) \<and>
   sentHeader (fst (ServeHTTP (postRequest truncatedBody) (server1 disconnected)))
     ''Access-Control-Allow-Origin'' = Some [''*''] \<and>
   sentHeader (fst (ServeHTTP (postRequest truncatedBody) (server1 disconnected)))
     ''Access-Control-Allow-Methods'' = Some [''POST, OPTIONS''] \<and>
   sentHeader (fst (ServeHTTP (postRequest truncatedBody) (server1 disconnected)))
     ''Access-Control-Allow-Headers'' =
     Some [''Content-Type, Access-Control-Allow-Headers, Authorization, X-Requested-With'']"
proof -
  have h: "RequestURI (postRequest truncatedBody) \<noteq> ''*''"
    "cleanPath (EscapedPath (postRequest truncatedBody)) = EscapedPath (postRequest truncatedBody)"
    by (simp_all add: postRequest_def cleanPath_examples)
  show ?thesis
    using cors_headers_on_handler_responses[OF h, of "server1 disconnected"] h
    by (simp add: postRequest_def allowHeaders_def)
qed

end
